theory Spec2Isabelle
  imports Main "HOL-Library.Sublist"
begin

section \<open>The resume document\<close>

text \<open>
  The export functions of \<^verbatim>\<open>SimpleExportManager\<close> (src/app_working.py) read a
  dictionary \<^verbatim>\<open>resume_data\<close>. Every key may be missing, and the code tells a
  missing key (\<^verbatim>\<open>d.get(k, default)\<close> gives the default) from an empty value
  (\<^verbatim>\<open>d.get(k)\<close> is falsy), so each key is an option: \<open>None\<close> is a missing key.
  Strings are byte lists (UTF-8); the one non-ASCII character of the source, the bullet
  U+2022, is the three bytes of \<open>bullet_glyph\<close>.
\<close>

record personal_info =
  full_name :: "string option"
  email :: "string option"
  phone :: "string option"
  location :: "string option"
  linkedin :: "string option"
  website :: "string option"

record experience =
  job_title :: "string option"
  company :: "string option"
  location :: "string option"
  start_date :: "string option"
  end_date :: "string option"
  bullets :: "string list option"

record education_entry =
  degree :: "string option"
  major :: "string option"
  school :: "string option"
  graduation_date :: "string option"

text \<open>
  The value under \<^verbatim>\<open>'work_experience'\<close> is a list of entries in a document of the
  expected shape. The code never checks that, so the model also admits a value that is
  no sequence: a scalar as JSON has them (floats apart).
\<close>

datatype scalar = PyNone | PyBool bool | PyInt int | PyStr string

datatype work_exp_value = ExpList "experience list" | NotList scalar

text \<open>
  \<^verbatim>\<open>skills\<close> is a dictionary from category to skill list; \<^verbatim>\<open>items()\<close> walks it
  in insertion order, so it is an association list (its keys are distinct in a
  dictionary).
\<close>

record resume =
  personal :: "personal_info option"
  summary :: "string option"
  work_experience :: "work_exp_value option"
  education :: "education_entry list option"
  skills :: "(string \<times> string list) list option"

definition conforming :: "resume \<Rightarrow> bool" where
  "conforming d = (case work_experience d of
       None \<Rightarrow> True
     | Some (ExpList xs) \<Rightarrow> True
     | Some (NotList v) \<Rightarrow> False)"

subsection \<open>Python's dictionary and string operations\<close>

text \<open>\<^verbatim>\<open>d.get(k, default)\<close>\<close>

fun get :: "'a option \<Rightarrow> 'a \<Rightarrow> 'a" where
  "get None dflt = dflt"
| "get (Some v) dflt = v"

text \<open>The truth value of \<^verbatim>\<open>d.get(k)\<close> for a string or a list: a missing key gives
  \<^verbatim>\<open>None\<close>, which is falsy, as is the empty string and the empty list.\<close>

fun truthy :: "'a list option \<Rightarrow> bool" where
  "truthy None = False"
| "truthy (Some v) = (v \<noteq> [])"

fun scalar_truthy :: "scalar \<Rightarrow> bool" where
  "scalar_truthy PyNone = False"
| "scalar_truthy (PyBool b) = b"
| "scalar_truthy (PyInt n) = (n \<noteq> 0)"
| "scalar_truthy (PyStr s) = (s \<noteq> [])"

text \<open>\<^verbatim>\<open>sep.join(xs)\<close>\<close>

fun join :: "string \<Rightarrow> string list \<Rightarrow> string" where
  "join sep [] = []"
| "join sep [x] = x"
| "join sep (x # y # ys) = x @ sep @ join sep (y # ys)"

definition bullet_glyph :: string where
  "bullet_glyph = [CHR 0xE2, CHR 0x80, CHR 0xA2]"

text \<open>\<^verbatim>\<open>resume_data.get('personal', {})\<close>: without the key, a dictionary with no key.\<close>

definition no_personal :: personal_info where
  "no_personal = \<lparr> full_name = None, email = None, phone = None,
     personal_info.location = None, linkedin = None, website = None \<rparr>"

definition get_personal :: "resume \<Rightarrow> personal_info" where
  "get_personal d = get (personal d) no_personal"

subsection \<open>Exceptions and the state of a render call\<close>

datatype error = TypeError string | AttributeError string | ValueError string | Exception string

text \<open>\<^verbatim>\<open>str(e)\<close> of an exception is its message.\<close>

fun str_of :: "error \<Rightarrow> string" where
  "str_of (TypeError m) = m"
| "str_of (AttributeError m) = m"
| "str_of (ValueError m) = m"
| "str_of (Exception m) = m"

text \<open>
  What \<^verbatim>\<open>for exp in work_exp: ... exp.get(...)\<close> raises on a truthy value that is no
  list: \<^verbatim>\<open>True\<close> and a number are not iterable; a string is, its items are
  one-character strings, and the first \<^verbatim>\<open>exp.get\<close> fails.
\<close>

definition quoted :: "string \<Rightarrow> string" where
  "quoted s = [CHR 0x27] @ s @ [CHR 0x27]"

fun iteration_error :: "scalar \<Rightarrow> error" where
  "iteration_error (PyStr s) =
     AttributeError (quoted ''str'' @ '' object has no attribute '' @ quoted ''get'')"
| "iteration_error (PyBool b) = TypeError (quoted ''bool'' @ '' object is not iterable'')"
| "iteration_error (PyInt n) = TypeError (quoted ''int'' @ '' object is not iterable'')"
| "iteration_error PyNone = TypeError (quoted ''NoneType'' @ '' object is not iterable'')"

text \<open>
  A render call works on the caller's dictionary and on its own output under construction
  (\<^verbatim>\<open>story\<close>, \<^verbatim>\<open>doc\<close> or \<^verbatim>\<open>html\<close>). The state keeps both, and the exception
  once one is raised: the statements after it do not run.
\<close>

record 'o render_state =
  resume_data :: resume
  out :: "'o list"
  raised :: "error option"

definition start :: "resume \<Rightarrow> 'o render_state" where
  "start d = \<lparr> resume_data = d, out = [], raised = None \<rparr>"

definition emit :: "'o list \<Rightarrow> 'o render_state \<Rightarrow> 'o render_state" where
  "emit xs s = s\<lparr> out := out s @ xs \<rparr>"

definition raise :: "error \<Rightarrow> 'o render_state \<Rightarrow> 'o render_state" where
  "raise e s = s\<lparr> raised := Some e \<rparr>"

definition running :: "('o render_state \<Rightarrow> 'o render_state) \<Rightarrow> 'o render_state \<Rightarrow> 'o render_state" where
  "running f s = (if raised s = None then f s else s)"

text \<open>
  reportlab and python-docx are no part of the repository, and they do not take every
  text: reportlab's \<^verbatim>\<open>Paragraph\<close> reads its text as markup and raises on text it
  cannot parse, python-docx raises on a control character. What a library does is a
  parameter of the model, in the two places where the code calls it: when it is asked for
  a block (\<^verbatim>\<open>Paragraph(...)\<close>, \<^verbatim>\<open>doc.add_paragraph(...)\<close> with its runs), and when
  it writes the finished blocks out (\<^verbatim>\<open>doc.build(story)\<close>, \<^verbatim>\<open>doc.save(buffer)\<close>).
  In each place it gives the message of the exception it raises, or \<open>None\<close> when it
  does what it is asked. An exception of a library ends the call as any other does
  (the model has it as a \<^verbatim>\<open>ValueError\<close>; only its message is read afterwards);
  \<open>out\<close> then holds the blocks made before it.
\<close>

record 'o library =
  block_error :: "'o \<Rightarrow> string option"
  document_error :: "'o list \<Rightarrow> string option"

definition add_block :: "'o library \<Rightarrow> 'o \<Rightarrow> 'o render_state \<Rightarrow> 'o render_state" where
  "add_block lib b s =
     (case block_error lib b of
        None \<Rightarrow> emit [b] s
      | Some m \<Rightarrow> raise (ValueError m) s)"

definition add_blocks :: "'o library \<Rightarrow> 'o list \<Rightarrow> 'o render_state \<Rightarrow> 'o render_state" where
  "add_blocks lib bs s = fold (\<lambda>b. running (add_block lib b)) bs s"

definition write_out :: "'o library \<Rightarrow> 'o render_state \<Rightarrow> 'o render_state" where
  "write_out lib s =
     (case document_error lib (out s) of
        None \<Rightarrow> s
      | Some m \<Rightarrow> raise (ValueError m) s)"

text \<open>\<^verbatim>\<open>d[k]\<close>, which the code writes only under \<^verbatim>\<open>if d.get(k):\<close>, where the key is there.\<close>

fun item :: "'a list option \<Rightarrow> 'a list" where
  "item (Some v) = v"
| "item None = []"

section \<open>What the three renderers share\<close>

text \<open>\<^verbatim>\<open>contact_info\<close>, built the same way in \<^verbatim>\<open>export_to_pdf\<close> (lines 199-205) and
  \<^verbatim>\<open>export_to_docx\<close> (lines 289-295).\<close>

definition contact_info :: "personal_info \<Rightarrow> string list" where
  "contact_info p =
     (if truthy (email p) then [item (email p)] else []) @
     (if truthy (phone p) then [item (phone p)] else []) @
     (if truthy (personal_info.location p) then [item (personal_info.location p)] else [])"

definition contact_separator :: string where
  "contact_separator = '' '' @ bullet_glyph @ '' ''"

text \<open>\<^verbatim>\<open>date_range\<close> (lines 228 and 317; line 426 has the same expression inline).\<close>

definition date_range :: "experience \<Rightarrow> string" where
  "date_range exp = get (start_date exp) [] @ '' to '' @ get (end_date exp) ''Present''"

section \<open>\<^verbatim>\<open>export_to_pdf\<close>\<close>

text \<open>
  The function fills \<^verbatim>\<open>story\<close>, a list of flowables, and hands it to reportlab's
  \<^verbatim>\<open>doc.build\<close>, whose bytes it returns. The model stops at the story: the value of
  \<open>export_to_pdf\<close> is the story the document is built from. Its first argument is
  reportlab, which makes the flowables and builds the document.
\<close>

datatype paragraph_style = title_style | heading_style | body_style

datatype flowable = Paragraph string paragraph_style | Spacer nat nat

type_synonym pdf_state = "flowable render_state"

definition pdf_header :: "personal_info \<Rightarrow> flowable list" where
  "pdf_header p =
     (if truthy (full_name p) then
        [Paragraph (item (full_name p)) title_style] @
        (if contact_info p \<noteq> []
         then [Paragraph (join contact_separator (contact_info p)) body_style] else []) @
        [Spacer 1 12]
      else [])"

definition pdf_summary :: "resume \<Rightarrow> flowable list" where
  "pdf_summary d =
     (if truthy (summary d) then
        [Paragraph ''PROFESSIONAL SUMMARY'' heading_style,
         Paragraph (item (summary d)) body_style,
         Spacer 1 12]
      else [])"

definition pdf_job_header :: "experience \<Rightarrow> string" where
  "pdf_job_header exp =
     (let job_header = ''<b>'' @ get (job_title exp) [] @ ''</b> - '' @ get (company exp) []
      in if truthy (experience.location exp)
         then job_header @ '' ('' @ item (experience.location exp) @ '')''
         else job_header)"

definition pdf_experience :: "experience \<Rightarrow> flowable list" where
  "pdf_experience exp =
     [Paragraph (pdf_job_header exp) body_style,
      Paragraph (''<i>'' @ date_range exp @ ''</i>'') body_style] @
     map (\<lambda>bullet. Paragraph (bullet_glyph @ '' '' @ bullet) body_style) (get (bullets exp) []) @
     [Spacer 1 8]"

definition pdf_edu_text :: "education_entry \<Rightarrow> string" where
  "pdf_edu_text edu =
     (let edu_text = ''<b>'' @ get (degree edu) [] @ ''</b>'';
          edu_text = (if truthy (major edu) then edu_text @ '' in '' @ item (major edu)
                      else edu_text);
          edu_text = edu_text @ '' - '' @ get (school edu) []
      in if truthy (graduation_date edu)
         then edu_text @ '' ('' @ item (graduation_date edu) @ '')''
         else edu_text)"

definition pdf_education_entry :: "education_entry \<Rightarrow> flowable list" where
  "pdf_education_entry edu = [Paragraph (pdf_edu_text edu) body_style, Spacer 1 4]"

definition pdf_education :: "resume \<Rightarrow> flowable list" where
  "pdf_education d =
     (let education = get (education d) []
      in if education \<noteq> [] then
           Paragraph ''EDUCATION'' heading_style # concat (map pdf_education_entry education)
         else [])"

definition pdf_skill_line :: "string \<times> string list \<Rightarrow> flowable list" where
  "pdf_skill_line = (\<lambda>(category, skill_list).
     if skill_list \<noteq> []
     then [Paragraph (''<b>'' @ category @ '':</b> '' @ join '', '' skill_list) body_style]
     else [])"

definition pdf_skills :: "resume \<Rightarrow> flowable list" where
  "pdf_skills d =
     (let skills = get (skills d) []
      in if skills \<noteq> [] then
           Paragraph ''SKILLS'' heading_style # concat (map pdf_skill_line skills)
         else [])"

text \<open>
  The work experience block (lines 219-234). On a list the loop cannot fail. On a truthy
  value that is no list the heading is already in the story when the loop raises. A
  missing key gives the default \<^verbatim>\<open>[]\<close>, which is falsy.
\<close>

definition pdf_work_experience :: "experience list \<Rightarrow> flowable list" where
  "pdf_work_experience work_exp =
     (if work_exp \<noteq> [] then
        Paragraph ''PROFESSIONAL EXPERIENCE'' heading_style # concat (map pdf_experience work_exp)
      else [])"

definition pdf_work_step :: "flowable library \<Rightarrow> pdf_state \<Rightarrow> pdf_state" where
  "pdf_work_step reportlab s =
     (case work_experience (resume_data s) of
        None \<Rightarrow> s
      | Some (ExpList work_exp) \<Rightarrow>
          add_blocks reportlab (pdf_work_experience work_exp) s
      | Some (NotList v) \<Rightarrow>
          if scalar_truthy v then
            running (raise (iteration_error v))
              (add_blocks reportlab [Paragraph ''PROFESSIONAL EXPERIENCE'' heading_style] s)
          else s)"

definition pdf_run :: "flowable library \<Rightarrow> resume \<Rightarrow> pdf_state" where
  "pdf_run reportlab d =
     (let s = start d;
          s = running (\<lambda>s. add_blocks reportlab (pdf_header (get_personal (resume_data s))) s) s;
          s = running (\<lambda>s. add_blocks reportlab (pdf_summary (resume_data s)) s) s;
          s = running (pdf_work_step reportlab) s;
          s = running (\<lambda>s. add_blocks reportlab (pdf_education (resume_data s)) s) s;
          s = running (\<lambda>s. add_blocks reportlab (pdf_skills (resume_data s)) s) s;
          s = running (write_out reportlab) s
      in s)"

text \<open>The \<^verbatim>\<open>try\<close> around the body (lines 159, 263-264) rewraps every exception.\<close>

definition export_to_pdf :: "flowable library \<Rightarrow> resume \<Rightarrow> error + flowable list" where
  "export_to_pdf reportlab d =
     (let s = pdf_run reportlab d
      in case raised s of
           None \<Rightarrow> Inr (out s)
         | Some e \<Rightarrow> Inl (Exception (''PDF export failed: '' @ str_of e)))"

section \<open>\<^verbatim>\<open>export_to_docx\<close>\<close>

text \<open>
  The function adds paragraphs to a python-docx \<^verbatim>\<open>Document\<close> and returns the bytes
  \<^verbatim>\<open>doc.save\<close> writes. The model stops at the paragraphs: each with its runs, its
  alignment and its style, as the code sets them (an attribute the code leaves alone is
  \<open>None\<close>, or \<open>False\<close> for \<open>bold\<close>). The page margins (lines 272-277) touch no paragraph
  and are left out. The first argument of \<open>export_to_docx\<close> is python-docx, which makes
  the paragraphs and their runs and saves the document.
\<close>

record run =
  run_text :: string
  bold :: bool
  font_size :: "nat option"

datatype alignment = CENTER

record docx_paragraph =
  runs :: "run list"
  alignment :: "alignment option"
  style :: "string option"

type_synonym docx_state = "docx_paragraph render_state"

definition plain_run :: "string \<Rightarrow> run" where
  "plain_run t = \<lparr> run_text = t, bold = False, font_size = None \<rparr>"

definition bold_run :: "string \<Rightarrow> run" where
  "bold_run t = \<lparr> run_text = t, bold = True, font_size = None \<rparr>"

text \<open>\<^verbatim>\<open>doc.add_paragraph(text, style)\<close>: python-docx adds a run only for a text that is
  not empty.\<close>

definition add_paragraph :: "string \<Rightarrow> string option \<Rightarrow> docx_paragraph" where
  "add_paragraph t st =
     \<lparr> runs = (if t \<noteq> [] then [plain_run t] else []), alignment = None, style = st \<rparr>"

text \<open>\<^verbatim>\<open>_add_section_heading\<close> (lines 361-367)\<close>

definition add_section_heading :: "string \<Rightarrow> docx_paragraph" where
  "add_section_heading title =
     \<lparr> runs = [\<lparr> run_text = title, bold = True, font_size = Some 14 \<rparr>],
       alignment = None, style = None \<rparr>"

definition docx_header :: "personal_info \<Rightarrow> docx_paragraph list" where
  "docx_header p =
     (if truthy (full_name p) then
        [\<lparr> runs = [\<lparr> run_text = item (full_name p), bold = True, font_size = Some 18 \<rparr>],
           alignment = Some CENTER, style = None \<rparr>] @
        (if contact_info p \<noteq> []
         then [(add_paragraph (join contact_separator (contact_info p)) None)
                 \<lparr> alignment := Some CENTER \<rparr>]
         else []) @
        [add_paragraph [] None]
      else [])"

definition docx_summary :: "resume \<Rightarrow> docx_paragraph list" where
  "docx_summary d =
     (if truthy (summary d) then
        [add_section_heading ''PROFESSIONAL SUMMARY'', add_paragraph (item (summary d)) None]
      else [])"

definition docx_job_run :: "experience \<Rightarrow> run" where
  "docx_job_run exp = bold_run (get (job_title exp) [] @ '' - '' @ get (company exp) [])"

definition docx_experience :: "experience \<Rightarrow> docx_paragraph list" where
  "docx_experience exp =
     [\<lparr> runs = [docx_job_run exp], alignment = None, style = None \<rparr>,
      add_paragraph (date_range exp) None] @
     map (\<lambda>bullet. add_paragraph bullet (Some ''List Bullet'')) (get (bullets exp) []) @
     [add_paragraph [] None]"

definition docx_education_runs :: "education_entry \<Rightarrow> run list" where
  "docx_education_runs edu =
     [bold_run (get (degree edu) [])] @
     (if truthy (major edu) then [plain_run ('' in '' @ item (major edu))] else []) @
     [plain_run ('' - '' @ get (school edu) [])] @
     (if truthy (graduation_date edu)
      then [plain_run ('' ('' @ item (graduation_date edu) @ '')'')] else [])"

definition docx_education :: "resume \<Rightarrow> docx_paragraph list" where
  "docx_education d =
     (let education = get (education d) []
      in if education \<noteq> [] then
           add_section_heading ''EDUCATION''
             # map (\<lambda>edu. \<lparr> runs = docx_education_runs edu, alignment = None, style = None \<rparr>)
                 education
         else [])"

definition docx_skill_line :: "string \<times> string list \<Rightarrow> docx_paragraph list" where
  "docx_skill_line = (\<lambda>(category, skill_list).
     if skill_list \<noteq> []
     then [\<lparr> runs = [bold_run (category @ '': ''), plain_run (join '', '' skill_list)],
             alignment = None, style = None \<rparr>]
     else [])"

definition docx_skills :: "resume \<Rightarrow> docx_paragraph list" where
  "docx_skills d =
     (let skills = get (skills d) []
      in if skills \<noteq> [] then
           add_section_heading ''SKILLS'' # concat (map docx_skill_line skills)
         else [])"

definition docx_work_experience :: "experience list \<Rightarrow> docx_paragraph list" where
  "docx_work_experience work_exp =
     (if work_exp \<noteq> [] then
        add_section_heading ''PROFESSIONAL EXPERIENCE'' # concat (map docx_experience work_exp)
      else [])"

definition docx_work_step :: "docx_paragraph library \<Rightarrow> docx_state \<Rightarrow> docx_state" where
  "docx_work_step python_docx s =
     (case work_experience (resume_data s) of
        None \<Rightarrow> s
      | Some (ExpList work_exp) \<Rightarrow>
          add_blocks python_docx (docx_work_experience work_exp) s
      | Some (NotList v) \<Rightarrow>
          if scalar_truthy v then
            running (raise (iteration_error v))
              (add_blocks python_docx [add_section_heading ''PROFESSIONAL EXPERIENCE''] s)
          else s)"

definition docx_run :: "docx_paragraph library \<Rightarrow> resume \<Rightarrow> docx_state" where
  "docx_run python_docx d =
     (let s = start d;
          s = running (\<lambda>s. add_blocks python_docx (docx_header (get_personal (resume_data s))) s) s;
          s = running (\<lambda>s. add_blocks python_docx (docx_summary (resume_data s)) s) s;
          s = running (docx_work_step python_docx) s;
          s = running (\<lambda>s. add_blocks python_docx (docx_education (resume_data s)) s) s;
          s = running (\<lambda>s. add_blocks python_docx (docx_skills (resume_data s)) s) s;
          s = running (write_out python_docx) s
      in s)"

definition export_to_docx :: "docx_paragraph library \<Rightarrow> resume \<Rightarrow> error + docx_paragraph list" where
  "export_to_docx python_docx d =
     (let s = docx_run python_docx d
      in case raised s of
           None \<Rightarrow> Inr (out s)
         | Some e \<Rightarrow> Inl (Exception (''DOCX export failed: '' @ str_of e)))"

section \<open>\<^verbatim>\<open>export_to_html\<close>\<close>

text \<open>
  The function returns the string \<^verbatim>\<open>html\<close>, grown by \<^verbatim>\<open>+=\<close>. It has no
  \<^verbatim>\<open>try\<close>: an exception leaves it as it was raised. The literals below are those of
  lines 372-455, with their line breaks and indentation.
\<close>

type_synonym html_state = "char render_state"

definition html_preamble :: string where
  \<open>html_preamble =
     ''\<newline>'' @
     ''        <!DOCTYPE html>\<newline>'' @
     ''        <html>\<newline>'' @
     ''        <head>\<newline>'' @
     ''            <meta charset="UTF-8">\<newline>'' @
     ''            <title>Resume - ''\<close>

definition html_styles :: string where
  \<open>html_styles =
     ''</title>\<newline>'' @
     ''            <style>\<newline>'' @
     ''                body { font-family: Arial, sans-serif; margin: 40px; color: #333; line-height: 1.6; }\<newline>'' @
     ''                .header { text-align: center; border-bottom: 2px solid #2E86C1; padding-bottom: 20px; margin-bottom: 30px; }\<newline>'' @
     ''                .name { font-size: 28px; font-weight: bold; color: #2E86C1; margin-bottom: 10px; }\<newline>'' @
     ''                .contact { margin-bottom: 5px; }\<newline>'' @
     ''                .section { margin-bottom: 25px; }\<newline>'' @
     ''                .section-title { font-size: 18px; font-weight: bold; color: #2E86C1; border-bottom: 1px solid #85C1E9; padding-bottom: 5px; margin-bottom: 15px; }\<newline>'' @
     ''                .job-title { font-weight: bold; color: #2E86C1; }\<newline>'' @
     ''                .company { font-weight: 600; }\<newline>'' @
     ''                .date-range { font-style: italic; color: #666; font-size: 14px; }\<newline>'' @
     ''                .bullet { margin: 5px 0 5px 20px; }\<newline>'' @
     ''                .skill-category { margin-bottom: 10px; }\<newline>'' @
     ''                .skill-category strong { color: #2E86C1; }\<newline>'' @
     ''            </style>\<newline>'' @
     ''        </head>\<newline>'' @
     ''        <body>\<newline>'' @
     ''            <div class="header">\<newline>'' @
     ''                <div class="name">''\<close>

text \<open>The contact line of the header (line 396).\<close>

definition html_contact_line :: "personal_info \<Rightarrow> string" where
  \<open>html_contact_line p =
     ''<div class="contact">'' @ get (email p) [] @ '' | '' @ get (phone p) [] @ '' | '' @
     get (personal_info.location p) [] @ ''</div>''\<close>

text \<open>The first assignment to \<^verbatim>\<open>html\<close> (lines 372-397).\<close>

definition html_head :: "personal_info \<Rightarrow> string" where
  \<open>html_head p =
     html_preamble @ get (full_name p) ''Resume'' @ html_styles @ get (full_name p) [] @
     ''</div>\<newline>'' @
     ''                '' @ html_contact_line p @ ''\<newline>'' @
     ''        ''\<close>

text \<open>Lines 399-407.\<close>

definition html_links :: "personal_info \<Rightarrow> string" where
  \<open>html_links p =
     (if truthy (linkedin p) \<or> truthy (website p) then
        ''<div class='' @ [CHR 0x27] @ ''contact'' @ [CHR 0x27] @ ''>'' @
        (if truthy (linkedin p) then ''LinkedIn: '' @ item (linkedin p) else []) @
        (if truthy (website p) then '' | Website: '' @ item (website p) else []) @
        ''</div>''
      else []) @
     ''</div>''\<close>

definition html_summary :: "resume \<Rightarrow> string" where
  \<open>html_summary d =
     (if truthy (summary d) then
        ''\<newline>'' @
        ''            <div class="section">\<newline>'' @
        ''                <div class="section-title">Professional Summary</div>\<newline>'' @
        ''                <p>'' @ item (summary d) @ ''</p>\<newline>'' @
        ''            </div>\<newline>'' @
        ''            ''
      else [])\<close>

definition html_experience_title :: string where
  \<open>html_experience_title =
     ''<div class="section"><div class="section-title">Professional Experience</div>''\<close>

text \<open>The title line and the date line of an entry (lines 425 and 426), and the entry
  (lines 423-430).\<close>

definition html_job_line :: "experience \<Rightarrow> string" where
  \<open>html_job_line exp =
     ''<div><span class="job-title">'' @ get (job_title exp) [] @
     ''</span> - <span class="company">'' @ get (company exp) [] @ ''</span></div>''\<close>

definition html_date_line :: "experience \<Rightarrow> string" where
  \<open>html_date_line exp =
     ''<div class="date-range">'' @ date_range exp @ '' | '' @
     get (experience.location exp) [] @ ''</div>''\<close>

definition html_experience :: "experience \<Rightarrow> string" where
  \<open>html_experience exp =
     ''\<newline>'' @
     ''                <div style="margin-bottom: 20px;">\<newline>'' @
     ''                    '' @ html_job_line exp @ ''\<newline>'' @
     ''                    '' @ html_date_line exp @ ''\<newline>'' @
     ''                '' @
     concat (map (\<lambda>bullet. ''<div class="bullet">'' @ bullet_glyph @ '' '' @ bullet @ ''</div>'')
               (get (bullets exp) [])) @
     ''</div>''\<close>

text \<open>The two lines of an education entry (lines 440 and 441), and the entry
  (lines 438-443).\<close>

definition html_education_line :: "education_entry \<Rightarrow> string" where
  \<open>html_education_line edu =
     ''<div class="job-title">'' @ get (degree edu) [] @ '' in '' @
     get (major edu) [] @ '' - '' @ get (school edu) [] @ ''</div>''\<close>

definition html_graduated_line :: "education_entry \<Rightarrow> string" where
  \<open>html_graduated_line edu =
     ''<div class="date-range">Graduated: '' @ get (graduation_date edu) [] @ ''</div>''\<close>

definition html_education_entry :: "education_entry \<Rightarrow> string" where
  \<open>html_education_entry edu =
     ''\<newline>'' @
     ''                <div style="margin-bottom: 15px;">\<newline>'' @
     ''                    '' @ html_education_line edu @ ''\<newline>'' @
     ''                    '' @ html_graduated_line edu @ ''\<newline>'' @
     ''                </div>\<newline>'' @
     ''                ''\<close>

definition html_education :: "resume \<Rightarrow> string" where
  \<open>html_education d =
     (let education = get (education d) []
      in if education \<noteq> [] then
           ''<div class="section"><div class="section-title">Education</div>'' @
           concat (map html_education_entry education) @
           ''</div>''
         else [])\<close>

definition html_skill_line :: "string \<times> string list \<Rightarrow> string" where
  \<open>html_skill_line = (\<lambda>(category, skill_list).
     if skill_list \<noteq> []
     then ''<div class="skill-category"><strong>'' @ category @ '':</strong> '' @
          join '', '' skill_list @ ''</div>''
     else [])\<close>

definition html_skills :: "resume \<Rightarrow> string" where
  \<open>html_skills d =
     (let skills = get (skills d) []
      in if skills \<noteq> [] then
           ''<div class="section"><div class="section-title">Skills</div>'' @
           concat (map html_skill_line skills) @
           ''</div>''
         else [])\<close>

definition html_work_experience :: "experience list \<Rightarrow> string" where
  "html_work_experience work_exp =
     (if work_exp \<noteq> [] then
        html_experience_title @ concat (map html_experience work_exp) @ ''</div>''
      else [])"

definition html_work_step :: "html_state \<Rightarrow> html_state" where
  "html_work_step s =
     (case work_experience (resume_data s) of
        None \<Rightarrow> s
      | Some (ExpList work_exp) \<Rightarrow>
          emit (html_work_experience work_exp) s
      | Some (NotList v) \<Rightarrow>
          if scalar_truthy v then raise (iteration_error v) (emit html_experience_title s)
          else s)"

definition html_run :: "resume \<Rightarrow> html_state" where
  "html_run d =
     (let s = start d;
          s = running (\<lambda>s. emit (html_head (get_personal (resume_data s))) s) s;
          s = running (\<lambda>s. emit (html_links (get_personal (resume_data s))) s) s;
          s = running (\<lambda>s. emit (html_summary (resume_data s)) s) s;
          s = running html_work_step s;
          s = running (\<lambda>s. emit (html_education (resume_data s)) s) s;
          s = running (\<lambda>s. emit (html_skills (resume_data s)) s) s;
          s = running (emit ''</body></html>'') s
      in s)"

definition export_to_html :: "resume \<Rightarrow> error + string" where
  "export_to_html d =
     (let s = html_run d
      in case raised s of
           None \<Rightarrow> Inr (out s)
         | Some e \<Rightarrow> Inl e)"

section \<open>Notions the properties are stated with\<close>

text \<open>The entries the work experience loops walk: those of the list, none without the key.\<close>

definition work_list :: "resume \<Rightarrow> experience list" where
  "work_list d = (case work_experience d of Some (ExpList xs) \<Rightarrow> xs | _ \<Rightarrow> [])"

subsection \<open>The outcome of a call that asks a library for blocks\<close>

text \<open>
  The message of the first refusal among the blocks a library is asked for, in order; the
  message of its first refusal in a call that asks for these blocks and then has them
  written out; and what \<^verbatim>\<open>export_to_pdf\<close> and \<^verbatim>\<open>export_to_docx\<close> come to in
  such a call when they raise nothing of their own: the blocks when the library refuses
  nothing, and otherwise the exception of the first refusal, as the \<^verbatim>\<open>except\<close>
  clause wraps it.
\<close>

fun first_refusal :: "'o library \<Rightarrow> 'o list \<Rightarrow> string option" where
  "first_refusal lib [] = None"
| "first_refusal lib (b # bs) =
     (case block_error lib b of None \<Rightarrow> first_refusal lib bs | Some m \<Rightarrow> Some m)"

definition refusal :: "'o library \<Rightarrow> 'o list \<Rightarrow> string option" where
  "refusal lib bs =
     (case first_refusal lib bs of None \<Rightarrow> document_error lib bs | Some m \<Rightarrow> Some m)"

definition pdf_outcome :: "flowable library \<Rightarrow> flowable list \<Rightarrow> error + flowable list" where
  "pdf_outcome reportlab story =
     (case refusal reportlab story of
        None \<Rightarrow> Inr story
      | Some m \<Rightarrow> Inl (Exception (''PDF export failed: '' @ m)))"

definition docx_outcome ::
  "docx_paragraph library \<Rightarrow> docx_paragraph list \<Rightarrow> error + docx_paragraph list" where
  "docx_outcome python_docx paragraphs =
     (case refusal python_docx paragraphs of
        None \<Rightarrow> Inr paragraphs
      | Some m \<Rightarrow> Inl (Exception (''DOCX export failed: '' @ m)))"

text \<open>
  A library that refuses nothing. It stands for reportlab and for python-docx on the
  example documents below that are rendered to PDF or DOCX: their fields are plain text,
  so the only markup reportlab meets there is what the renderer writes itself.
\<close>

definition accepting :: "'o library" where
  "accepting = \<lparr> block_error = (\<lambda>b. None), document_error = (\<lambda>bs. None) \<rparr>"

subsection \<open>What an output shows\<close>

text \<open>
  The text of a block of the story and of a paragraph of the document (the texts of its
  runs, one after the other), and whether an output shows a text: in some block, in some
  paragraph, or somewhere in the HTML string. A call that raised shows nothing.
\<close>

fun pdf_text :: "flowable \<Rightarrow> string" where
  "pdf_text (Paragraph t st) = t"
| "pdf_text (Spacer w h) = []"

definition docx_text :: "docx_paragraph \<Rightarrow> string" where
  "docx_text p = concat (map run_text (runs p))"

definition pdf_shows :: "error + flowable list \<Rightarrow> string \<Rightarrow> bool" where
  "pdf_shows r t = (case r of Inl e \<Rightarrow> False
     | Inr story \<Rightarrow> list_ex (\<lambda>b. sublist t (pdf_text b)) story)"

definition docx_shows :: "error + docx_paragraph list \<Rightarrow> string \<Rightarrow> bool" where
  "docx_shows r t = (case r of Inl e \<Rightarrow> False
     | Inr paragraphs \<Rightarrow> list_ex (\<lambda>p. sublist t (docx_text p)) paragraphs)"

definition html_shows :: "error + string \<Rightarrow> string \<Rightarrow> bool" where
  "html_shows r t = (case r of Inl e \<Rightarrow> False | Inr html \<Rightarrow> sublist t html)"

subsection \<open>Example documents\<close>

text \<open>Documents for the skill categories: every category empty, one of two empty, and a
  single category, which is empty.\<close>

definition only_empty_categories :: resume where
  "only_empty_categories = \<lparr> personal = None, summary = None, work_experience = None,
     education = None, skills = Some [(''Languages'', []), (''Tools'', [])] \<rparr>"

definition one_empty_category :: resume where
  "one_empty_category = \<lparr> personal = None, summary = None, work_experience = None,
     education = None, skills = Some [(''Languages'', [''Python'', ''C'']), (''Tools'', [])] \<rparr>"

definition lone_empty_category :: resume where
  "lone_empty_category = \<lparr> personal = None, summary = None, work_experience = None,
     education = None, skills = Some [(''Tools'', [])] \<rparr>"

text \<open>The document of the end-to-end scenario of the specification.\<close>

definition jane_job :: experience where
  "jane_job = \<lparr> job_title = Some ''Engineer'', company = Some ''Acme'',
     experience.location = None, start_date = Some ''01/2020'', end_date = Some [],
     bullets = Some [''Shipped X''] \<rparr>"

definition jane_doe :: resume where
  "jane_doe = \<lparr>
     personal = Some \<lparr> full_name = Some ''Jane Doe'', email = Some ''jane@x.com'', phone = None,
       personal_info.location = None, linkedin = None, website = None \<rparr>,
     summary = Some [],
     work_experience = Some (ExpList [jane_job]),
     education = Some [],
     skills = Some [] \<rparr>"

text \<open>The same document with no \<^verbatim>\<open>'end_date'\<close> key in the entry.\<close>

definition jane_current :: resume where
  "jane_current = jane_doe \<lparr> work_experience := Some (ExpList [jane_job \<lparr> end_date := None \<rparr>]) \<rparr>"

text \<open>A document with a name and no contact data: the email is the empty string, the other
  keys are missing.\<close>

definition name_only :: resume where
  "name_only = \<lparr>
     personal = Some \<lparr> full_name = Some ''Jane Doe'', email = Some [], phone = None,
       personal_info.location = None, linkedin = None, website = None \<rparr>,
     summary = None, work_experience = None, education = None, skills = None \<rparr>"

text \<open>The document \<^verbatim>\<open>initialize_session_state\<close> starts a session with (lines 460-468;
  no export function reads its keys \<^verbatim>\<open>'projects'\<close> and \<^verbatim>\<open>'certifications'\<close>), once
  the email and the summary are filled in and the name is not.\<close>

definition nameless :: resume where
  "nameless = \<lparr>
     personal = Some \<lparr> full_name = Some [], email = Some ''jane@x.com'', phone = Some [],
       personal_info.location = Some [], linkedin = Some [], website = Some [] \<rparr>,
     summary = Some ''Engineer.'',
     work_experience = Some (ExpList []),
     education = Some [],
     skills = Some [] \<rparr>"

text \<open>A document whose name is markup, and one with a character of markup in every field.\<close>

definition script_name :: resume where
  "script_name = \<lparr>
     personal = Some \<lparr> full_name = Some ''<script>'', email = None, phone = None,
       personal_info.location = None, linkedin = None, website = None \<rparr>,
     summary = None, work_experience = None, education = None, skills = None \<rparr>"

definition markup_job :: experience where
  "markup_job = \<lparr> job_title = Some ''<b>Dev'', company = Some ''A&B'',
     experience.location = Some ''<NYC>'', start_date = Some ''<2020>'', end_date = Some ''&now'',
     bullets = Some [''x < y''] \<rparr>"

definition markup_degree :: education_entry where
  "markup_degree = \<lparr> degree = Some ''<BSc>'', major = Some ''C&S'', school = Some ''<MIT>'',
     graduation_date = Some ''<2019>'' \<rparr>"

definition markup_everywhere :: resume where
  \<open>markup_everywhere = \<lparr>
     personal = Some \<lparr> full_name = Some ''<script>alert(1)</script>'', email = Some ''a&b@x.com'',
       phone = Some ''<1>'', personal_info.location = Some ''"Q"'',
       linkedin = Some ''<in>'', website = Some ''<a href=x>'' \<rparr>,
     summary = Some ''</p><p>'',
     work_experience = Some (ExpList [markup_job]),
     education = Some [markup_degree],
     skills = Some [(''<C>'', [''a&b'', ''<c>''])] \<rparr>\<close>

text \<open>A document with one job that has a location, and one with one degree that has a
  graduation date and an empty major.\<close>

definition located_job :: resume where
  "located_job = \<lparr> personal = None, summary = None,
     work_experience = Some (ExpList [jane_job \<lparr> experience.location := Some ''NYC'' \<rparr>]),
     education = None, skills = None \<rparr>"

definition bsc :: education_entry where
  "bsc = \<lparr> degree = Some ''BSc'', major = Some [], school = Some ''MIT'',
     graduation_date = Some ''2020'' \<rparr>"

definition one_degree :: resume where
  "one_degree = \<lparr> personal = None, summary = None, work_experience = None,
     education = Some [bsc], skills = None \<rparr>"

text \<open>Documents whose \<^verbatim>\<open>'work_experience'\<close> is a number: 5, and 0, which is falsy.\<close>

definition experience_five :: resume where
  "experience_five = \<lparr> personal = None, summary = None,
     work_experience = Some (NotList (PyInt 5)), education = None, skills = None \<rparr>"

definition experience_zero :: resume where
  "experience_zero = \<lparr> personal = None, summary = None,
     work_experience = Some (NotList (PyInt 0)), education = None, skills = None \<rparr>"

definition no_key :: resume where
  "no_key = \<lparr> personal = None, summary = None, work_experience = None, education = None,
     skills = None \<rparr>"

section \<open>Properties\<close>

subsection \<open>The steps of a render call\<close>

lemma emit_fields [simp]:
  "resume_data (emit xs s) = resume_data s"
  "out (emit xs s) = out s @ xs"
  "raised (emit xs s) = raised s"
  by (simp_all add: emit_def)

lemma raise_fields [simp]:
  "resume_data (raise e s) = resume_data s"
  "out (raise e s) = out s"
  "raised (raise e s) = Some e"
  by (simp_all add: raise_def)

lemma start_fields [simp]:
  "resume_data (start d) = d"
  "out (start d) = []"
  "raised (start d) = None"
  by (simp_all add: start_def)

lemma emit_Nil [simp]: "emit [] s = s"
  by (simp add: emit_def)

lemma running_ok: "raised s = None \<Longrightarrow> running f s = f s"
  by (simp add: running_def)

lemma running_frame:
  assumes "\<And>s. resume_data (f s) = resume_data s"
  shows "resume_data (running f s) = resume_data s"
  using assms by (simp add: running_def)

lemma add_block_frame: "resume_data (add_block lib b s) = resume_data s"
  by (simp add: add_block_def split: option.splits)

lemma write_out_frame: "resume_data (write_out lib s) = resume_data s"
  by (simp add: write_out_def split: option.splits)

lemma add_blocks_frame [simp]: "resume_data (add_blocks lib bs s) = resume_data s"
  unfolding add_blocks_def
  by (induction bs arbitrary: s) (simp_all add: running_frame add_block_frame)

lemma add_blocks_Nil [simp]: "add_blocks lib [] s = s"
  by (simp add: add_blocks_def)

lemma add_blocks_Cons:
  "add_blocks lib (b # bs) s = add_blocks lib bs (running (add_block lib b) s)"
  by (simp add: add_blocks_def)

lemma add_blocks_append:
  "add_blocks lib (xs @ ys) s = add_blocks lib ys (add_blocks lib xs s)"
  by (simp add: add_blocks_def)

lemma add_blocks_after_raise:
  assumes "raised s = Some e"
  shows "add_blocks lib bs s = s"
  using assms by (induction bs) (simp_all add: add_blocks_Cons running_def)

lemma running_add_blocks:
  "running (\<lambda>s. add_blocks lib (f s) s) s = add_blocks lib (f s) s"
  by (cases "raised s") (simp_all add: running_def add_blocks_after_raise)

lemma add_blocks_result:
  assumes "raised s = None"
  shows "raised (add_blocks lib bs s) = map_option ValueError (first_refusal lib bs)"
    and "first_refusal lib bs = None \<Longrightarrow> out (add_blocks lib bs s) = out s @ bs"
  using assms
proof (induction bs arbitrary: s)
  case Nil
  {
    case 1 then show ?case by simp
  next
    case 2 then show ?case by simp
  }
next
  case (Cons b bs)
  {
    case 1
    show ?case
    proof (cases "block_error lib b")
      case None
      with 1 have "raised (running (add_block lib b) s) = None"
        by (simp add: running_def add_block_def)
      from Cons.IH(1) [OF this] None show ?thesis by (simp add: add_blocks_Cons)
    next
      case (Some m)
      with 1 have "raised (running (add_block lib b) s) = Some (ValueError m)"
        by (simp add: running_def add_block_def)
      then show ?thesis using Some
        by (simp add: add_blocks_Cons add_blocks_after_raise)
    qed
  next
    case 2
    then have None: "block_error lib b = None" and rest: "first_refusal lib bs = None"
      by (simp_all split: option.splits)
    with 2 have r: "raised (running (add_block lib b) s) = None"
      and o: "out (running (add_block lib b) s) = out s @ [b]"
      by (simp_all add: running_def add_block_def)
    from Cons.IH(2) [OF rest r] o show ?case by (simp add: add_blocks_Cons)
  }
qed

lemma first_refusal_None:
  "first_refusal lib bs = None \<longleftrightarrow> (\<forall>b \<in> set bs. block_error lib b = None)"
  by (induction bs) (auto split: option.splits)

lemma first_refusal_accepting [simp]: "first_refusal accepting bs = None"
  by (simp add: first_refusal_None accepting_def)

lemma refusal_accepting [simp]: "refusal accepting bs = None"
  by (simp add: refusal_def) (simp add: accepting_def)

lemma written_out:
  "raised (running (write_out lib) (add_blocks lib bs (start d)))
      = map_option ValueError (refusal lib bs)"
  "refusal lib bs = None \<Longrightarrow> out (running (write_out lib) (add_blocks lib bs (start d))) = bs"
proof -
  have s: "raised (start d :: 'a render_state) = None" by simp
  note r = add_blocks_result [OF s, of lib bs]
  show "raised (running (write_out lib) (add_blocks lib bs (start d)))
      = map_option ValueError (refusal lib bs)"
    using r
    by (cases "first_refusal lib bs")
      (simp_all add: running_def write_out_def refusal_def split: option.splits)
  show "out (running (write_out lib) (add_blocks lib bs (start d))) = bs"
    if "refusal lib bs = None"
    using r that
    by (cases "first_refusal lib bs")
      (simp_all add: running_def write_out_def refusal_def split: option.splits)
qed

lemma work_experience_Nil [simp]:
  "pdf_work_experience [] = []" "docx_work_experience [] = []" "html_work_experience [] = []"
  by (simp_all add: pdf_work_experience_def docx_work_experience_def html_work_experience_def)

lemma pdf_work_step_conforming:
  assumes "conforming (resume_data s)"
  shows "pdf_work_step lib s = add_blocks lib (pdf_work_experience (work_list (resume_data s))) s"
  using assms
  by (simp add: pdf_work_step_def conforming_def work_list_def
      split: option.splits work_exp_value.splits)

lemma docx_work_step_conforming:
  assumes "conforming (resume_data s)"
  shows "docx_work_step lib s
     = add_blocks lib (docx_work_experience (work_list (resume_data s))) s"
  using assms
  by (simp add: docx_work_step_def conforming_def work_list_def
      split: option.splits work_exp_value.splits)

lemma html_work_step_conforming:
  assumes "conforming (resume_data s)"
  shows "html_work_step s = emit (html_work_experience (work_list (resume_data s))) s"
  using assms
  by (simp add: html_work_step_def conforming_def work_list_def
      split: option.splits work_exp_value.splits)

lemma pdf_work_step_frame: "resume_data (pdf_work_step lib s) = resume_data s"
  by (simp add: pdf_work_step_def running_frame split: option.splits work_exp_value.splits)

lemma docx_work_step_frame: "resume_data (docx_work_step lib s) = resume_data s"
  by (simp add: docx_work_step_def running_frame split: option.splits work_exp_value.splits)

lemma html_work_step_frame: "resume_data (html_work_step s) = resume_data s"
  by (simp add: html_work_step_def split: option.splits work_exp_value.splits)

subsection \<open>The output for a document of the expected shape\<close>

lemma pdf_run_conforming:
  assumes "conforming d"
  shows "pdf_run lib d = running (write_out lib)
     (add_blocks lib (pdf_header (get_personal d) @ pdf_summary d
        @ pdf_work_experience (work_list d) @ pdf_education d @ pdf_skills d) (start d))"
proof -
  have "running (pdf_work_step lib) s
      = add_blocks lib (pdf_work_experience (work_list (resume_data s))) s"
    if "conforming (resume_data s)" for s
    by (cases "raised s")
      (simp_all add: running_def pdf_work_step_conforming [OF that] add_blocks_after_raise)
  then show ?thesis
    using assms by (simp add: pdf_run_def Let_def running_add_blocks add_blocks_append)
qed

lemma export_to_pdf_conforming:
  assumes "conforming d"
  shows "export_to_pdf lib d = pdf_outcome lib (pdf_header (get_personal d) @ pdf_summary d
     @ pdf_work_experience (work_list d) @ pdf_education d @ pdf_skills d)"
  unfolding export_to_pdf_def pdf_outcome_def Let_def pdf_run_conforming [OF assms]
  by (cases "refusal lib (pdf_header (get_personal d) @ pdf_summary d
        @ pdf_work_experience (work_list d) @ pdf_education d @ pdf_skills d)")
    (simp_all add: written_out)

lemma docx_run_conforming:
  assumes "conforming d"
  shows "docx_run lib d = running (write_out lib)
     (add_blocks lib (docx_header (get_personal d) @ docx_summary d
        @ docx_work_experience (work_list d) @ docx_education d @ docx_skills d) (start d))"
proof -
  have "running (docx_work_step lib) s
      = add_blocks lib (docx_work_experience (work_list (resume_data s))) s"
    if "conforming (resume_data s)" for s
    by (cases "raised s")
      (simp_all add: running_def docx_work_step_conforming [OF that] add_blocks_after_raise)
  then show ?thesis
    using assms by (simp add: docx_run_def Let_def running_add_blocks add_blocks_append)
qed

lemma export_to_docx_conforming:
  assumes "conforming d"
  shows "export_to_docx lib d = docx_outcome lib (docx_header (get_personal d) @ docx_summary d
     @ docx_work_experience (work_list d) @ docx_education d @ docx_skills d)"
  unfolding export_to_docx_def docx_outcome_def Let_def docx_run_conforming [OF assms]
  by (cases "refusal lib (docx_header (get_personal d) @ docx_summary d
        @ docx_work_experience (work_list d) @ docx_education d @ docx_skills d)")
    (simp_all add: written_out)

lemma html_run_conforming:
  assumes "conforming d"
  shows "raised (html_run d) = None"
    and "out (html_run d) = html_head (get_personal d) @ html_links (get_personal d)
           @ html_summary d @ html_work_experience (work_list d) @ html_education d
           @ html_skills d @ ''</body></html>''"
  using assms
  by (simp_all add: html_run_def Let_def running_ok html_work_step_conforming)

lemma export_to_html_conforming:
  assumes "conforming d"
  shows "export_to_html d = Inr (html_head (get_personal d) @ html_links (get_personal d)
     @ html_summary d @ html_work_experience (work_list d) @ html_education d @ html_skills d
     @ ''</body></html>'')"
  by (simp add: export_to_html_def Let_def html_run_conforming [OF assms])

lemma pdf_outcome_accepting [simp]: "pdf_outcome accepting story = Inr story"
  by (simp add: pdf_outcome_def)

lemma docx_outcome_accepting [simp]: "docx_outcome accepting paragraphs = Inr paragraphs"
  by (simp add: docx_outcome_def)

lemma pdf_outcome_Inr: "pdf_outcome lib bs = Inr story \<Longrightarrow> story = bs"
  by (simp add: pdf_outcome_def split: option.splits)

lemma docx_outcome_Inr: "docx_outcome lib bs = Inr paragraphs \<Longrightarrow> paragraphs = bs"
  by (simp add: docx_outcome_def split: option.splits)

subsection \<open>Rendering leaves the document alone\<close>

text \<open>
  C9. None of the three render operations changes a field of the document it is given:
  in the state each call ends in, whether it returns or raises, and whatever the
  libraries do, the document is the one the call started with.
\<close>

theorem render_leaves_document_unchanged:
  "resume_data (pdf_run reportlab d) = d \<and> resume_data (docx_run python_docx d) = d
   \<and> resume_data (html_run d) = d"
proof (intro conjI)
  show "resume_data (pdf_run reportlab d) = d"
    by (simp add: pdf_run_def Let_def running_frame pdf_work_step_frame write_out_frame)
  show "resume_data (docx_run python_docx d) = d"
    by (simp add: docx_run_def Let_def running_frame docx_work_step_frame write_out_frame)
  show "resume_data (html_run d) = d"
    by (simp add: html_run_def Let_def running_frame html_work_step_frame)
qed

subsection \<open>Skill categories\<close>

lemma skill_line_empty [simp]:
  "pdf_skill_line (c, []) = []" "docx_skill_line (c, []) = []" "html_skill_line (c, []) = []"
  by (simp_all add: pdf_skill_line_def docx_skill_line_def html_skill_line_def)

lemma concat_map_all_empty:
  assumes "\<And>x. x \<in> set xs \<Longrightarrow> f x = []"
  shows "concat (map f xs) = []"
  using assms by (induction xs) auto

lemma skills_all_empty:
  assumes "skills d = Some sk" and "sk \<noteq> []" and "list_all (\<lambda>entry. snd entry = []) sk"
  shows "pdf_skills d = [Paragraph ''SKILLS'' heading_style]"
    and "docx_skills d =
      [\<lparr> runs = [\<lparr> run_text = ''SKILLS'', bold = True, font_size = Some 14 \<rparr>],
         alignment = None, style = None \<rparr>]"
    and "html_skills d = ''<div class=\"section\"><div class=\"section-title\">Skills</div></div>''"
proof -
  have empty: "\<And>x. x \<in> set sk \<Longrightarrow> snd x = []"
    using assms(3) by (simp add: list_all_iff)
  have "concat (map pdf_skill_line sk) = []"
    by (rule concat_map_all_empty) (use empty in \<open>auto simp: pdf_skill_line_def\<close>)
  then show "pdf_skills d = [Paragraph ''SKILLS'' heading_style]"
    using assms(1,2) by (simp add: pdf_skills_def)
  have "concat (map docx_skill_line sk) = []"
    by (rule concat_map_all_empty) (use empty in \<open>auto simp: docx_skill_line_def\<close>)
  then show "docx_skills d =
      [\<lparr> runs = [\<lparr> run_text = ''SKILLS'', bold = True, font_size = Some 14 \<rparr>],
         alignment = None, style = None \<rparr>]"
    using assms(1,2) by (simp add: docx_skills_def add_section_heading_def)
  have "concat (map html_skill_line sk) = []"
    by (rule concat_map_all_empty) (use empty in \<open>auto simp: html_skill_line_def\<close>)
  then show "html_skills d =
      ''<div class=\"section\"><div class=\"section-title\">Skills</div></div>''"
    using assms(1,2) by (simp add: html_skills_def)
qed

lemma only_skills_parts:
  assumes "personal d = None" and "summary d = None" and "work_experience d = None"
    and "education d = None"
  shows "get_personal d = no_personal"
    and "pdf_header no_personal = []" and "pdf_summary d = []"
    and "pdf_work_experience (work_list d) = []" and "pdf_education d = []"
    and "docx_header no_personal = []" and "docx_summary d = []"
    and "docx_work_experience (work_list d) = []" and "docx_education d = []"
    and "html_links no_personal = ''</div>''" and "html_summary d = []"
    and "html_work_experience (work_list d) = []" and "html_education d = []"
    and "conforming d"
  using assms
  by (simp_all add: get_personal_def no_personal_def pdf_header_def pdf_summary_def
      work_list_def pdf_education_def docx_header_def docx_summary_def docx_education_def
      html_links_def html_summary_def html_education_def conforming_def)

text \<open>
  C10. When the skills mapping is not empty and every category has an empty skill list,
  all three renderers still emit the SKILLS heading, with no category line under it: in
  each output the heading is what follows the education section, and nothing follows it
  but, in HTML, the closing tags. (The PDF and the DOCX call return these blocks unless
  the library refuses one of them or refuses to write them out.)
\<close>

theorem skills_heading_without_lines:
  assumes "conforming d" and "skills d = Some sk" and "sk \<noteq> []"
    and "list_all (\<lambda>entry. snd entry = []) sk"
  shows "export_to_pdf reportlab d = pdf_outcome reportlab
           (pdf_header (get_personal d) @ pdf_summary d
            @ pdf_work_experience (work_list d) @ pdf_education d
            @ [Paragraph ''SKILLS'' heading_style])
       \<and> export_to_docx python_docx d = docx_outcome python_docx
           (docx_header (get_personal d) @ docx_summary d
            @ docx_work_experience (work_list d) @ docx_education d
            @ [\<lparr> runs = [\<lparr> run_text = ''SKILLS'', bold = True, font_size = Some 14 \<rparr>],
                 alignment = None, style = None \<rparr>])
       \<and> export_to_html d = Inr (html_head (get_personal d) @ html_links (get_personal d)
           @ html_summary d @ html_work_experience (work_list d) @ html_education d
           @ ''<div class=\"section\"><div class=\"section-title\">Skills</div></div>''
           @ ''</body></html>'')"
  by (simp only: export_to_pdf_conforming [OF assms(1)] export_to_docx_conforming [OF assms(1)]
      export_to_html_conforming [OF assms(1)] skills_all_empty [OF assms(2,3,4)] simp_thms)

theorem skills_heading_without_lines_witness:
  "export_to_pdf accepting only_empty_categories = Inr [Paragraph ''SKILLS'' heading_style]
   \<and> export_to_docx accepting only_empty_categories = Inr
        [\<lparr> runs = [\<lparr> run_text = ''SKILLS'', bold = True, font_size = Some 14 \<rparr>],
           alignment = None, style = None \<rparr>]
   \<and> export_to_html only_empty_categories = Inr (html_head no_personal @ ''</div>''
        @ ''<div class=\"section\"><div class=\"section-title\">Skills</div></div>''
        @ ''</body></html>'')"
proof -
  have h1: "conforming only_empty_categories"
    by (simp add: conforming_def only_empty_categories_def)
  have h2: "skills only_empty_categories = Some [(''Languages'', []), (''Tools'', [])]"
    by (simp add: only_empty_categories_def)
  have h3: "[(''Languages'', []), (''Tools'', [])] \<noteq> ([] :: (string \<times> string list) list)"
    by simp
  have h4: "list_all (\<lambda>entry. snd entry = [])
      [(''Languages'', [] :: string list), (''Tools'', [])]"
    by simp
  have p: "personal only_empty_categories = None" "summary only_empty_categories = None"
    "work_experience only_empty_categories = None" "education only_empty_categories = None"
    by (simp_all add: only_empty_categories_def)
  show ?thesis
    using skills_heading_without_lines [OF h1 h2 h3 h4, of accepting accepting]
    by (simp only: only_skills_parts [OF p] append_Nil pdf_outcome_accepting
        docx_outcome_accepting)
qed

lemma skills_update_parts [simp]:
  "conforming (d\<lparr>skills := v\<rparr>) = conforming d"
  "get_personal (d\<lparr>skills := v\<rparr>) = get_personal d"
  "pdf_summary (d\<lparr>skills := v\<rparr>) = pdf_summary d"
  "docx_summary (d\<lparr>skills := v\<rparr>) = docx_summary d"
  "html_summary (d\<lparr>skills := v\<rparr>) = html_summary d"
  "work_list (d\<lparr>skills := v\<rparr>) = work_list d"
  "pdf_education (d\<lparr>skills := v\<rparr>) = pdf_education d"
  "docx_education (d\<lparr>skills := v\<rparr>) = docx_education d"
  "html_education (d\<lparr>skills := v\<rparr>) = html_education d"
  by (simp_all add: conforming_def get_personal_def pdf_summary_def docx_summary_def
      html_summary_def work_list_def pdf_education_def docx_education_def html_education_def)

lemma skills_with_empty_category:
  assumes "skills d = Some (before @ (c, []) # after)"
  shows "pdf_skills d
      = Paragraph ''SKILLS'' heading_style # concat (map pdf_skill_line (before @ after))"
    and "docx_skills d
      = \<lparr> runs = [\<lparr> run_text = ''SKILLS'', bold = True, font_size = Some 14 \<rparr>],
          alignment = None, style = None \<rparr> # concat (map docx_skill_line (before @ after))"
    and "html_skills d
      = ''<div class=\"section\"><div class=\"section-title\">Skills</div>''
        @ concat (map html_skill_line (before @ after)) @ ''</div>''"
  using assms
  by (simp_all add: pdf_skills_def docx_skills_def html_skills_def add_section_heading_def)

lemma skills_of_the_rest:
  assumes "before @ after \<noteq> []"
  shows "pdf_skills (d\<lparr>skills := Some (before @ after)\<rparr>)
      = Paragraph ''SKILLS'' heading_style # concat (map pdf_skill_line (before @ after))"
    and "docx_skills (d\<lparr>skills := Some (before @ after)\<rparr>)
      = \<lparr> runs = [\<lparr> run_text = ''SKILLS'', bold = True, font_size = Some 14 \<rparr>],
          alignment = None, style = None \<rparr> # concat (map docx_skill_line (before @ after))"
    and "html_skills (d\<lparr>skills := Some (before @ after)\<rparr>)
      = ''<div class=\"section\"><div class=\"section-title\">Skills</div>''
        @ concat (map html_skill_line (before @ after)) @ ''</div>''"
  using assms
  by (simp_all add: pdf_skills_def docx_skills_def html_skills_def add_section_heading_def)



subsection \<open>Texts in the HTML output\<close>

lemma sublist_middle:
  assumes "sublist t w"
  shows "sublist t (a @ w @ b)"
proof -
  have "sublist w (a @ w @ b)" by (rule sublist_appendI)
  with assms show ?thesis by (rule sublist_order.order_trans)
qed

lemma sublist_drop_left:
  assumes "sublist t ys"
  shows "sublist t (xs @ ys)"
  using sublist_middle [OF assms, of xs "[]"] by simp

lemma sublist_keep_left:
  assumes "sublist t xs"
  shows "sublist t (xs @ ys)"
  using sublist_middle [OF assms, of "[]" ys] by simp

lemma concat_map_member:
  assumes "x \<in> set xs"
  shows "\<exists>a b. concat (map f xs) = a @ f x @ b"
proof -
  from assms obtain ys zs where "xs = ys @ x # zs" by (auto dest: split_list)
  then have "concat (map f xs) = concat (map f ys) @ f x @ concat (map f zs)" by simp
  then show ?thesis by blast
qed

lemma html_head_shown:
  assumes "conforming d" and "sublist t (html_head (get_personal d))"
  shows "html_shows (export_to_html d) t"
proof -
  from assms(2) have "sublist t (html_head (get_personal d) @ html_links (get_personal d)
     @ html_summary d @ html_work_experience (work_list d) @ html_education d @ html_skills d
     @ ''</body></html>'')"
    by (rule sublist_keep_left)
  then show ?thesis
    by (simp add: html_shows_def export_to_html_conforming [OF assms(1)])
qed

lemma html_contact_line_in_head: "sublist (html_contact_line p) (html_head p)"
  unfolding html_head_def by (intro sublist_append_rightI sublist_drop_left)

lemma html_parts_shown:
  assumes "conforming d"
  shows "sublist t (html_links (get_personal d)) \<Longrightarrow> html_shows (export_to_html d) t"
    and "sublist t (html_summary d) \<Longrightarrow> html_shows (export_to_html d) t"
    and "sublist t (html_skills d) \<Longrightarrow> html_shows (export_to_html d) t"
proof -
  note out = export_to_html_conforming [OF assms]
  {
    assume "sublist t (html_links (get_personal d))"
    then have "sublist t (html_head (get_personal d) @ html_links (get_personal d)
       @ html_summary d @ html_work_experience (work_list d) @ html_education d
       @ html_skills d @ ''</body></html>'')"
      by (intro sublist_drop_left sublist_keep_left)
    then show "html_shows (export_to_html d) t"
      by (simp only: out html_shows_def sum.case)
  }
  {
    assume "sublist t (html_summary d)"
    then have "sublist t (html_head (get_personal d) @ html_links (get_personal d)
       @ html_summary d @ html_work_experience (work_list d) @ html_education d
       @ html_skills d @ ''</body></html>'')"
      by (intro sublist_drop_left sublist_keep_left)
    then show "html_shows (export_to_html d) t"
      by (simp only: out html_shows_def sum.case)
  }
  {
    assume "sublist t (html_skills d)"
    then have "sublist t (html_head (get_personal d) @ html_links (get_personal d)
       @ html_summary d @ html_work_experience (work_list d) @ html_education d
       @ html_skills d @ ''</body></html>'')"
      by (intro sublist_drop_left sublist_keep_left)
    then show "html_shows (export_to_html d) t"
      by (simp only: out html_shows_def sum.case)
  }
qed

lemma html_title_in_head:
  \<open>sublist (''<title>Resume - '' @ get (full_name p) ''Resume'' @ ''</title>'') (html_head p)\<close>
proof -
  have a: \<open>html_preamble = take (length html_preamble - 16) html_preamble @ ''<title>Resume - ''\<close>
    by (simp add: html_preamble_def)
  have b: \<open>html_styles = ''</title>'' @ drop 8 html_styles\<close>
    by (simp add: html_styles_def)
  have \<open>html_head p = take (length html_preamble - 16) html_preamble
      @ (''<title>Resume - '' @ get (full_name p) ''Resume'' @ ''</title>'')
      @ (drop 8 html_styles @ get (full_name p) [] @
         ''</div>\<newline>'' @
         ''                '' @ html_contact_line p @ ''\<newline>'' @
         ''        '')\<close>
    unfolding html_head_def
    by (subst a, subst b) (simp only: append_assoc)
  then show ?thesis by (simp only: sublist_appendI)
qed

lemma html_name_line_in_head:
  \<open>sublist (''<div class="name">'' @ get (full_name p) [] @ ''</div>'') (html_head p)\<close>
proof -
  have a: \<open>html_styles = take (length html_styles - 18) html_styles @ ''<div class="name">''\<close>
    by (simp add: html_styles_def)
  have \<open>html_head p = (html_preamble @ get (full_name p) ''Resume''
        @ take (length html_styles - 18) html_styles)
      @ (''<div class="name">'' @ get (full_name p) [] @ ''</div>'')
      @ (''\<newline>'' @
         ''                '' @ html_contact_line p @ ''\<newline>'' @
         ''        '')\<close>
    unfolding html_head_def
    by (subst a) (simp only: append_assoc append_Cons append_Nil)
  then show ?thesis by (simp only: sublist_appendI)
qed

subsection \<open>The header\<close>

text \<open>
  C3 holds for the PDF and the DOCX output and fails for the HTML output. For a document
  with a name and no contact data the story is the name and a spacer, the DOCX document
  is the name and an empty paragraph, and the HTML output has the contact line, with its
  two separators and nothing between them.
\<close>

theorem html_contact_line_without_contact_data:
  "export_to_pdf accepting name_only = Inr [Paragraph ''Jane Doe'' title_style, Spacer 1 12]
   \<and> export_to_docx accepting name_only = Inr
        [\<lparr> runs = [\<lparr> run_text = ''Jane Doe'', bold = True, font_size = Some 18 \<rparr>],
           alignment = Some CENTER, style = None \<rparr>,
         \<lparr> runs = [], alignment = None, style = None \<rparr>]
   \<and> html_shows (export_to_html name_only) ''<div class=\"contact\"> |  | </div>''"
proof (intro conjI)
  have c: "conforming name_only" by (simp add: conforming_def name_only_def)
  show "export_to_pdf accepting name_only = Inr [Paragraph ''Jane Doe'' title_style, Spacer 1 12]"
    by (simp add: export_to_pdf_conforming [OF c])
      (simp add: name_only_def get_personal_def pdf_header_def contact_info_def pdf_summary_def
        work_list_def pdf_education_def pdf_skills_def)
  show "export_to_docx accepting name_only = Inr
        [\<lparr> runs = [\<lparr> run_text = ''Jane Doe'', bold = True, font_size = Some 18 \<rparr>],
           alignment = Some CENTER, style = None \<rparr>,
         \<lparr> runs = [], alignment = None, style = None \<rparr>]"
    by (simp add: export_to_docx_conforming [OF c])
      (simp add: name_only_def get_personal_def docx_header_def contact_info_def
        docx_summary_def work_list_def docx_education_def docx_skills_def add_paragraph_def)
  have "html_contact_line (get_personal name_only) = ''<div class=\"contact\"> |  | </div>''"
    by (simp add: html_contact_line_def get_personal_def name_only_def)
  with html_contact_line_in_head [of "get_personal name_only"]
  have "sublist ''<div class=\"contact\"> |  | </div>'' (html_head (get_personal name_only))"
    by simp
  with c show "html_shows (export_to_html name_only) ''<div class=\"contact\"> |  | </div>''"
    by (rule html_head_shown)
qed

text \<open>
  C1 fails on a document with an email, a summary and an empty name: the PDF story and
  the DOCX document have the summary section and nothing of the personal data, and the
  HTML output has the header block, with an empty name line and the contact line, before
  the summary.
\<close>

theorem html_header_without_name:
  \<open>export_to_pdf accepting nameless = Inr
     [Paragraph ''PROFESSIONAL SUMMARY'' heading_style, Paragraph ''Engineer.'' body_style,
      Spacer 1 12]
   \<and> export_to_docx accepting nameless = Inr
     [\<lparr> runs = [\<lparr> run_text = ''PROFESSIONAL SUMMARY'', bold = True, font_size = Some 14 \<rparr>],
        alignment = None, style = None \<rparr>,
      \<lparr> runs = [\<lparr> run_text = ''Engineer.'', bold = False, font_size = None \<rparr>],
        alignment = None, style = None \<rparr>]
   \<and> html_shows (export_to_html nameless) ''<div class="name"></div>''
   \<and> html_shows (export_to_html nameless) ''<div class="contact">jane@x.com |  | </div>''
   \<and> html_shows (export_to_html nameless) ''<p>Engineer.</p>''\<close>
proof (intro conjI)
  have c: "conforming nameless" by (simp add: conforming_def nameless_def)
  show "export_to_pdf accepting nameless = Inr
     [Paragraph ''PROFESSIONAL SUMMARY'' heading_style, Paragraph ''Engineer.'' body_style,
      Spacer 1 12]"
    by (simp add: export_to_pdf_conforming [OF c])
      (simp add: nameless_def get_personal_def pdf_header_def pdf_summary_def
        work_list_def pdf_education_def pdf_skills_def)
  show "export_to_docx accepting nameless = Inr
     [\<lparr> runs = [\<lparr> run_text = ''PROFESSIONAL SUMMARY'', bold = True, font_size = Some 14 \<rparr>],
        alignment = None, style = None \<rparr>,
      \<lparr> runs = [\<lparr> run_text = ''Engineer.'', bold = False, font_size = None \<rparr>],
        alignment = None, style = None \<rparr>]"
    by (simp add: export_to_docx_conforming [OF c])
      (simp add: nameless_def get_personal_def docx_header_def docx_summary_def
        work_list_def docx_education_def docx_skills_def add_section_heading_def
        add_paragraph_def plain_run_def)
  have p: "get (full_name (get_personal nameless)) [] = []"
    \<open>html_contact_line (get_personal nameless) = ''<div class="contact">jane@x.com |  | </div>''\<close>
    by (simp_all add: nameless_def get_personal_def html_contact_line_def)
  from html_name_line_in_head [of "get_personal nameless"]
  have \<open>sublist ''<div class="name"></div>'' (html_head (get_personal nameless))\<close>
    by (simp add: p)
  with c show \<open>html_shows (export_to_html nameless) ''<div class="name"></div>''\<close>
    by (rule html_head_shown)
  from html_contact_line_in_head [of "get_personal nameless"]
  have \<open>sublist ''<div class="contact">jane@x.com |  | </div>''
      (html_head (get_personal nameless))\<close>
    by (simp only: p)
  with c show \<open>html_shows (export_to_html nameless)
      ''<div class="contact">jane@x.com |  | </div>''\<close>
    by (rule html_head_shown)
  have \<open>html_summary nameless =
        (''\<newline>'' @
         ''            <div class="section">\<newline>'' @
         ''                <div class="section-title">Professional Summary</div>\<newline>'' @
         ''                '') @ ''<p>Engineer.</p>'' @
        (''\<newline>'' @
         ''            </div>\<newline>'' @
         ''            '')\<close>
    by (simp add: html_summary_def nameless_def)
  then have \<open>sublist ''<p>Engineer.</p>'' (html_summary nameless)\<close>
    by (simp only: sublist_appendI)
  then show \<open>html_shows (export_to_html nameless) ''<p>Engineer.</p>''\<close>
    by (rule html_parts_shown(2) [OF c])
qed

subsection \<open>The blocks of a work experience entry\<close>

lemmas pdf_parts = get_personal_def contact_info_def contact_separator_def date_range_def
  pdf_header_def pdf_summary_def pdf_job_header_def pdf_experience_def pdf_edu_text_def
  pdf_education_entry_def pdf_education_def pdf_skill_line_def pdf_skills_def
  pdf_work_experience_def work_list_def

lemmas docx_parts = get_personal_def contact_info_def contact_separator_def date_range_def
  plain_run_def bold_run_def add_paragraph_def add_section_heading_def docx_header_def
  docx_summary_def docx_job_run_def docx_experience_def docx_education_runs_def
  docx_education_def docx_skill_line_def docx_skills_def docx_work_experience_def
  work_list_def

lemma pdf_experience_in_story:
  assumes "conforming d" and "exp \<in> set (work_list d)" and "b \<in> set (pdf_experience exp)"
    and "export_to_pdf lib d = Inr story"
  shows "b \<in> set story"
proof -
  from assms(2) have "work_list d \<noteq> []" by auto
  with assms(2,3) have "b \<in> set (pdf_work_experience (work_list d))"
    by (auto simp: pdf_work_experience_def)
  moreover from assms(4) have "story = pdf_header (get_personal d) @ pdf_summary d
     @ pdf_work_experience (work_list d) @ pdf_education d @ pdf_skills d"
    by (simp only: export_to_pdf_conforming [OF assms(1)] pdf_outcome_Inr)
  ultimately show ?thesis by simp
qed

lemma docx_experience_in_document:
  assumes "conforming d" and "exp \<in> set (work_list d)" and "p \<in> set (docx_experience exp)"
    and "export_to_docx lib d = Inr paragraphs"
  shows "p \<in> set paragraphs"
proof -
  from assms(2) have "work_list d \<noteq> []" by auto
  with assms(2,3) have "p \<in> set (docx_work_experience (work_list d))"
    by (auto simp: docx_work_experience_def)
  moreover from assms(4) have "paragraphs = docx_header (get_personal d) @ docx_summary d
     @ docx_work_experience (work_list d) @ docx_education d @ docx_skills d"
    by (simp only: export_to_docx_conforming [OF assms(1)] docx_outcome_Inr)
  ultimately show ?thesis by simp
qed

lemma html_experience_in_html:
  assumes "conforming d" and "exp \<in> set (work_list d)" and "sublist t (html_experience exp)"
  shows "html_shows (export_to_html d) t"
proof -
  from assms(2) have ne: "work_list d \<noteq> []" by auto
  obtain a b
    where "concat (map html_experience (work_list d)) = a @ html_experience exp @ b"
    using concat_map_member [OF assms(2), of html_experience] by blast
  with assms(3) have "sublist t (concat (map html_experience (work_list d)))"
    by (simp only: sublist_middle)
  then have "sublist t (html_experience_title
      @ concat (map html_experience (work_list d)) @ ''</div>'')"
    by (rule sublist_middle)
  then have "sublist t (html_work_experience (work_list d))"
    using ne by (simp only: html_work_experience_def if_True simp_thms)
  then have "sublist t (html_head (get_personal d) @ html_links (get_personal d)
     @ html_summary d @ html_work_experience (work_list d) @ html_education d @ html_skills d
     @ ''</body></html>'')"
    by (intro sublist_drop_left sublist_keep_left)
  then show ?thesis
    by (simp add: html_shows_def export_to_html_conforming [OF assms(1)])
qed

lemma html_job_line_shown:
  assumes "conforming d" and "exp \<in> set (work_list d)"
  shows "html_shows (export_to_html d) (html_job_line exp)"
proof -
  have "sublist (html_job_line exp) (html_experience exp)"
    unfolding html_experience_def by (intro sublist_append_rightI sublist_drop_left)
  then show ?thesis by (rule html_experience_in_html [OF assms])
qed

lemma html_date_line_shown:
  assumes "conforming d" and "exp \<in> set (work_list d)"
  shows "html_shows (export_to_html d) (html_date_line exp)"
proof -
  have "sublist (html_date_line exp) (html_experience exp)"
    unfolding html_experience_def by (intro sublist_append_rightI sublist_drop_left)
  then show ?thesis by (rule html_experience_in_html [OF assms])
qed

lemma jane_doe_outputs:
  "export_to_pdf accepting jane_doe = Inr
     [Paragraph ''Jane Doe'' title_style, Paragraph ''jane@x.com'' body_style, Spacer 1 12,
      Paragraph ''PROFESSIONAL EXPERIENCE'' heading_style,
      Paragraph ''<b>Engineer</b> - Acme'' body_style,
      Paragraph ''<i>01/2020 to </i>'' body_style,
      Paragraph (bullet_glyph @ '' Shipped X'') body_style, Spacer 1 8]"
  "export_to_docx accepting jane_doe = Inr
     [\<lparr> runs = [\<lparr> run_text = ''Jane Doe'', bold = True, font_size = Some 18 \<rparr>],
        alignment = Some CENTER, style = None \<rparr>,
      \<lparr> runs = [\<lparr> run_text = ''jane@x.com'', bold = False, font_size = None \<rparr>],
        alignment = Some CENTER, style = None \<rparr>,
      \<lparr> runs = [], alignment = None, style = None \<rparr>,
      \<lparr> runs = [\<lparr> run_text = ''PROFESSIONAL EXPERIENCE'', bold = True, font_size = Some 14 \<rparr>],
        alignment = None, style = None \<rparr>,
      \<lparr> runs = [\<lparr> run_text = ''Engineer - Acme'', bold = True, font_size = None \<rparr>],
        alignment = None, style = None \<rparr>,
      \<lparr> runs = [\<lparr> run_text = ''01/2020 to '', bold = False, font_size = None \<rparr>],
        alignment = None, style = None \<rparr>,
      \<lparr> runs = [\<lparr> run_text = ''Shipped X'', bold = False, font_size = None \<rparr>],
        alignment = None, style = Some ''List Bullet'' \<rparr>,
      \<lparr> runs = [], alignment = None, style = None \<rparr>]"
proof -
  have c: "conforming jane_doe" by (simp add: conforming_def jane_doe_def)
  show "export_to_pdf accepting jane_doe = Inr
     [Paragraph ''Jane Doe'' title_style, Paragraph ''jane@x.com'' body_style, Spacer 1 12,
      Paragraph ''PROFESSIONAL EXPERIENCE'' heading_style,
      Paragraph ''<b>Engineer</b> - Acme'' body_style,
      Paragraph ''<i>01/2020 to </i>'' body_style,
      Paragraph (bullet_glyph @ '' Shipped X'') body_style, Spacer 1 8]"
    by (simp add: export_to_pdf_conforming [OF c])
      (simp add: jane_doe_def jane_job_def pdf_parts)
  show "export_to_docx accepting jane_doe = Inr
     [\<lparr> runs = [\<lparr> run_text = ''Jane Doe'', bold = True, font_size = Some 18 \<rparr>],
        alignment = Some CENTER, style = None \<rparr>,
      \<lparr> runs = [\<lparr> run_text = ''jane@x.com'', bold = False, font_size = None \<rparr>],
        alignment = Some CENTER, style = None \<rparr>,
      \<lparr> runs = [], alignment = None, style = None \<rparr>,
      \<lparr> runs = [\<lparr> run_text = ''PROFESSIONAL EXPERIENCE'', bold = True, font_size = Some 14 \<rparr>],
        alignment = None, style = None \<rparr>,
      \<lparr> runs = [\<lparr> run_text = ''Engineer - Acme'', bold = True, font_size = None \<rparr>],
        alignment = None, style = None \<rparr>,
      \<lparr> runs = [\<lparr> run_text = ''01/2020 to '', bold = False, font_size = None \<rparr>],
        alignment = None, style = None \<rparr>,
      \<lparr> runs = [\<lparr> run_text = ''Shipped X'', bold = False, font_size = None \<rparr>],
        alignment = None, style = Some ''List Bullet'' \<rparr>,
      \<lparr> runs = [], alignment = None, style = None \<rparr>]"
    by (simp add: export_to_docx_conforming [OF c])
      (simp add: jane_doe_def jane_job_def docx_parts)
qed

subsection \<open>The date line of a work experience entry\<close>

text \<open>
  C2 as stated fails: in the document of the end-to-end scenario the entry has the key
  \<^verbatim>\<open>end_date\<close> with the empty string, and no block of the PDF story and no paragraph
  of the DOCX document shows "01/2020 to Present" (the date line is "01/2020 to ").
\<close>

theorem present_for_empty_end_date_counterexample:
  "\<not> pdf_shows (export_to_pdf accepting jane_doe) ''01/2020 to Present''
   \<and> \<not> docx_shows (export_to_docx accepting jane_doe) ''01/2020 to Present''"
  unfolding jane_doe_outputs by code_simp

text \<open>
  C2, amended. For every work experience entry, the date line is "start_date to end_date"
  with the stored end date as it is, also when it is the empty string, and "Present" in
  its place only when the entry has no \<^verbatim>\<open>end_date\<close> key. A PDF story has it as a
  paragraph in italic markup, a DOCX document as a paragraph of one plain run, and the
  HTML output as the line of class date-range, where " | " and the location follow it.
\<close>

theorem date_line_shows_stored_end_date:
  assumes "conforming d" and "exp \<in> set (work_list d)"
  shows "(\<forall>story. export_to_pdf reportlab d = Inr story \<longrightarrow>
            Paragraph (''<i>'' @ get (start_date exp) [] @ '' to '' @
                (case end_date exp of None \<Rightarrow> ''Present'' | Some e \<Rightarrow> e) @ ''</i>'')
              body_style \<in> set story)
       \<and> (\<forall>paragraphs. export_to_docx python_docx d = Inr paragraphs \<longrightarrow>
            \<lparr> runs = [\<lparr> run_text = get (start_date exp) [] @ '' to '' @
                          (case end_date exp of None \<Rightarrow> ''Present'' | Some e \<Rightarrow> e),
                        bold = False, font_size = None \<rparr>],
              alignment = None, style = None \<rparr> \<in> set paragraphs)
       \<and> html_shows (export_to_html d)
            (''<div class=\"date-range\">'' @ get (start_date exp) [] @ '' to '' @
             (case end_date exp of None \<Rightarrow> ''Present'' | Some e \<Rightarrow> e) @ '' | '' @
             get (experience.location exp) [] @ ''</div>'')"
proof (intro conjI allI impI)
  have dr: "get (start_date exp) [] @ '' to '' @
      (case end_date exp of None \<Rightarrow> ''Present'' | Some e \<Rightarrow> e) = date_range exp"
    by (cases "end_date exp") (simp_all add: date_range_def)
  fix story assume "export_to_pdf reportlab d = Inr story"
  moreover have "Paragraph (''<i>'' @ date_range exp @ ''</i>'') body_style
      \<in> set (pdf_experience exp)"
    by (simp add: pdf_experience_def)
  ultimately have "Paragraph (''<i>'' @ date_range exp @ ''</i>'') body_style \<in> set story"
    using pdf_experience_in_story [OF assms] by blast
  then show "Paragraph (''<i>'' @ get (start_date exp) [] @ '' to '' @
                (case end_date exp of None \<Rightarrow> ''Present'' | Some e \<Rightarrow> e) @ ''</i>'')
              body_style \<in> set story"
    by (simp add: dr [symmetric])
next
  have dr: "get (start_date exp) [] @ '' to '' @
      (case end_date exp of None \<Rightarrow> ''Present'' | Some e \<Rightarrow> e) = date_range exp"
    by (cases "end_date exp") (simp_all add: date_range_def)
  fix paragraphs assume "export_to_docx python_docx d = Inr paragraphs"
  moreover have "\<lparr> runs = [\<lparr> run_text = date_range exp, bold = False, font_size = None \<rparr>],
              alignment = None, style = None \<rparr> \<in> set (docx_experience exp)"
    by (simp add: docx_experience_def add_paragraph_def plain_run_def date_range_def)
  ultimately have "\<lparr> runs = [\<lparr> run_text = date_range exp, bold = False, font_size = None \<rparr>],
              alignment = None, style = None \<rparr> \<in> set paragraphs"
    using docx_experience_in_document [OF assms] by blast
  then show "\<lparr> runs = [\<lparr> run_text = get (start_date exp) [] @ '' to '' @
                          (case end_date exp of None \<Rightarrow> ''Present'' | Some e \<Rightarrow> e),
                        bold = False, font_size = None \<rparr>],
              alignment = None, style = None \<rparr> \<in> set paragraphs"
    by (simp only: dr)
next
  have "html_date_line exp = ''<div class=\"date-range\">'' @ get (start_date exp) [] @
      '' to '' @ (case end_date exp of None \<Rightarrow> ''Present'' | Some e \<Rightarrow> e) @ '' | '' @
      get (experience.location exp) [] @ ''</div>''"
    by (cases "end_date exp") (simp_all add: html_date_line_def date_range_def)
  with html_date_line_shown [OF assms]
  show "html_shows (export_to_html d)
            (''<div class=\"date-range\">'' @ get (start_date exp) [] @ '' to '' @
             (case end_date exp of None \<Rightarrow> ''Present'' | Some e \<Rightarrow> e) @ '' | '' @
             get (experience.location exp) [] @ ''</div>'')"
    by simp
qed

theorem date_line_shows_stored_end_date_witness:
  "(\<exists>story. export_to_pdf accepting jane_doe = Inr story
       \<and> Paragraph ''<i>01/2020 to </i>'' body_style \<in> set story)
   \<and> (\<exists>paragraphs. export_to_docx accepting jane_doe = Inr paragraphs
       \<and> \<lparr> runs = [\<lparr> run_text = ''01/2020 to '', bold = False, font_size = None \<rparr>],
            alignment = None, style = None \<rparr> \<in> set paragraphs)
   \<and> html_shows (export_to_html jane_doe) ''<div class=\"date-range\">01/2020 to  | </div>''
   \<and> (\<exists>story. export_to_pdf accepting jane_current = Inr story
       \<and> Paragraph ''<i>01/2020 to Present</i>'' body_style \<in> set story)
   \<and> (\<exists>paragraphs. export_to_docx accepting jane_current = Inr paragraphs
       \<and> \<lparr> runs = [\<lparr> run_text = ''01/2020 to Present'', bold = False, font_size = None \<rparr>],
            alignment = None, style = None \<rparr> \<in> set paragraphs)
   \<and> html_shows (export_to_html jane_current)
       ''<div class=\"date-range\">01/2020 to Present | </div>''"
proof -
  have h1: "conforming jane_current" and h1': "conforming jane_doe"
    by (simp_all add: conforming_def jane_current_def jane_doe_def)
  have h2: "jane_job \<lparr> end_date := None \<rparr> \<in> set (work_list jane_current)"
    and h2': "jane_job \<in> set (work_list jane_doe)"
    by (simp_all add: work_list_def jane_current_def jane_doe_def)
  obtain story paragraphs where r: "export_to_pdf accepting jane_doe = Inr story"
    "export_to_docx accepting jane_doe = Inr paragraphs"
    by (simp add: export_to_pdf_conforming [OF h1'] export_to_docx_conforming [OF h1'])
  obtain story' paragraphs' where r': "export_to_pdf accepting jane_current = Inr story'"
    "export_to_docx accepting jane_current = Inr paragraphs'"
    by (simp add: export_to_pdf_conforming [OF h1] export_to_docx_conforming [OF h1])
  show ?thesis
    using date_line_shows_stored_end_date [OF h1' h2', of accepting accepting]
      date_line_shows_stored_end_date [OF h1 h2, of accepting accepting]
    by (simp add: r r' jane_job_def)
qed

subsection \<open>The title line of a work experience entry\<close>

text \<open>
  C5 fails on an entry with the location "NYC": the PDF title line is
  "Engineer - Acme (NYC)" with the job title in bold markup, the DOCX document has the
  title paragraph "Engineer - Acme" and the location in no paragraph, and the HTML output
  has the title line without the location, which follows the dates on the date line.
\<close>

theorem docx_title_line_without_location:
  "export_to_pdf accepting located_job = Inr
     [Paragraph ''PROFESSIONAL EXPERIENCE'' heading_style,
      Paragraph ''<b>Engineer</b> - Acme (NYC)'' body_style,
      Paragraph ''<i>01/2020 to </i>'' body_style,
      Paragraph (bullet_glyph @ '' Shipped X'') body_style, Spacer 1 8]
   \<and> export_to_docx accepting located_job = Inr
     [\<lparr> runs = [\<lparr> run_text = ''PROFESSIONAL EXPERIENCE'', bold = True, font_size = Some 14 \<rparr>],
        alignment = None, style = None \<rparr>,
      \<lparr> runs = [\<lparr> run_text = ''Engineer - Acme'', bold = True, font_size = None \<rparr>],
        alignment = None, style = None \<rparr>,
      \<lparr> runs = [\<lparr> run_text = ''01/2020 to '', bold = False, font_size = None \<rparr>],
        alignment = None, style = None \<rparr>,
      \<lparr> runs = [\<lparr> run_text = ''Shipped X'', bold = False, font_size = None \<rparr>],
        alignment = None, style = Some ''List Bullet'' \<rparr>,
      \<lparr> runs = [], alignment = None, style = None \<rparr>]
   \<and> html_shows (export_to_html located_job)
       ''<div><span class=\"job-title\">Engineer</span> - <span class=\"company\">Acme</span></div>''
   \<and> html_shows (export_to_html located_job)
       ''<div class=\"date-range\">01/2020 to  | NYC</div>''"
proof (intro conjI)
  have c: "conforming located_job" by (simp add: conforming_def located_job_def)
  have e: "jane_job \<lparr> experience.location := Some ''NYC'' \<rparr> \<in> set (work_list located_job)"
    by (simp add: work_list_def located_job_def)
  show "export_to_pdf accepting located_job = Inr
     [Paragraph ''PROFESSIONAL EXPERIENCE'' heading_style,
      Paragraph ''<b>Engineer</b> - Acme (NYC)'' body_style,
      Paragraph ''<i>01/2020 to </i>'' body_style,
      Paragraph (bullet_glyph @ '' Shipped X'') body_style, Spacer 1 8]"
    by (simp add: export_to_pdf_conforming [OF c])
      (simp add: located_job_def jane_job_def no_personal_def pdf_parts)
  show "export_to_docx accepting located_job = Inr
     [\<lparr> runs = [\<lparr> run_text = ''PROFESSIONAL EXPERIENCE'', bold = True, font_size = Some 14 \<rparr>],
        alignment = None, style = None \<rparr>,
      \<lparr> runs = [\<lparr> run_text = ''Engineer - Acme'', bold = True, font_size = None \<rparr>],
        alignment = None, style = None \<rparr>,
      \<lparr> runs = [\<lparr> run_text = ''01/2020 to '', bold = False, font_size = None \<rparr>],
        alignment = None, style = None \<rparr>,
      \<lparr> runs = [\<lparr> run_text = ''Shipped X'', bold = False, font_size = None \<rparr>],
        alignment = None, style = Some ''List Bullet'' \<rparr>,
      \<lparr> runs = [], alignment = None, style = None \<rparr>]"
    by (simp add: export_to_docx_conforming [OF c])
      (simp add: located_job_def jane_job_def no_personal_def docx_parts)
  from html_job_line_shown [OF c e]
  show "html_shows (export_to_html located_job)
       ''<div><span class=\"job-title\">Engineer</span> - <span class=\"company\">Acme</span></div>''"
    by (simp add: html_job_line_def jane_job_def)
  from html_date_line_shown [OF c e]
  show "html_shows (export_to_html located_job)
       ''<div class=\"date-range\">01/2020 to  | NYC</div>''"
    by (simp add: html_date_line_def date_range_def jane_job_def)
qed

subsection \<open>The line of an education entry\<close>

lemma html_education_in_html:
  assumes "conforming d" and "edu \<in> set (get (education d) [])"
    and "sublist t (html_education_entry edu)"
  shows "html_shows (export_to_html d) t"
proof -
  from assms(2) have ne: "get (education d) [] \<noteq> []" by auto
  obtain a b
    where "concat (map html_education_entry (get (education d) []))
      = a @ html_education_entry edu @ b"
    using concat_map_member [OF assms(2), of html_education_entry] by blast
  with assms(3) have "sublist t (concat (map html_education_entry (get (education d) [])))"
    by (simp only: sublist_middle)
  then have "sublist t (''<div class=\"section\"><div class=\"section-title\">Education</div>''
      @ concat (map html_education_entry (get (education d) [])) @ ''</div>'')"
    by (rule sublist_middle)
  then have "sublist t (html_education d)"
    using ne by (simp only: html_education_def Let_def if_True simp_thms)
  then have "sublist t (html_head (get_personal d) @ html_links (get_personal d)
     @ html_summary d @ html_work_experience (work_list d) @ html_education d @ html_skills d
     @ ''</body></html>'')"
    by (intro sublist_drop_left sublist_keep_left)
  then show ?thesis
    by (simp add: html_shows_def export_to_html_conforming [OF assms(1)])
qed

lemma html_education_lines_shown:
  assumes "conforming d" and "edu \<in> set (get (education d) [])"
  shows "html_shows (export_to_html d) (html_education_line edu)"
    and "html_shows (export_to_html d) (html_graduated_line edu)"
proof -
  have "sublist (html_education_line edu) (html_education_entry edu)"
    unfolding html_education_entry_def by (intro sublist_append_rightI sublist_drop_left)
  then show "html_shows (export_to_html d) (html_education_line edu)"
    by (rule html_education_in_html [OF assms])
  have "sublist (html_graduated_line edu) (html_education_entry edu)"
    unfolding html_education_entry_def by (intro sublist_append_rightI sublist_drop_left)
  then show "html_shows (export_to_html d) (html_graduated_line edu)"
    by (rule html_education_in_html [OF assms])
qed

text \<open>
  C6 fails on an entry with the graduation date "2020" and an empty major: the PDF line
  is "BSc - MIT (2020)" with the degree in bold markup, the runs of the DOCX paragraph
  spell the same line, and the HTML output has the line "BSc in  - MIT", with " in " and
  without the date, which is on a line of its own.
\<close>

theorem html_education_line_for_empty_major:
  "export_to_pdf accepting one_degree = Inr
     [Paragraph ''EDUCATION'' heading_style,
      Paragraph ''<b>BSc</b> - MIT (2020)'' body_style, Spacer 1 4]
   \<and> export_to_docx accepting one_degree = Inr
     [\<lparr> runs = [\<lparr> run_text = ''EDUCATION'', bold = True, font_size = Some 14 \<rparr>],
        alignment = None, style = None \<rparr>,
      \<lparr> runs = [\<lparr> run_text = ''BSc'', bold = True, font_size = None \<rparr>,
                 \<lparr> run_text = '' - MIT'', bold = False, font_size = None \<rparr>,
                 \<lparr> run_text = '' (2020)'', bold = False, font_size = None \<rparr>],
        alignment = None, style = None \<rparr>]
   \<and> html_shows (export_to_html one_degree) ''<div class=\"job-title\">BSc in  - MIT</div>''
   \<and> html_shows (export_to_html one_degree)
       ''<div class=\"date-range\">Graduated: 2020</div>''"
proof (intro conjI)
  have c: "conforming one_degree" by (simp add: conforming_def one_degree_def)
  have e: "bsc \<in> set (get (education one_degree) [])" by (simp add: one_degree_def)
  show "export_to_pdf accepting one_degree = Inr
     [Paragraph ''EDUCATION'' heading_style,
      Paragraph ''<b>BSc</b> - MIT (2020)'' body_style, Spacer 1 4]"
    by (simp add: export_to_pdf_conforming [OF c])
      (simp add: one_degree_def bsc_def no_personal_def pdf_parts)
  show "export_to_docx accepting one_degree = Inr
     [\<lparr> runs = [\<lparr> run_text = ''EDUCATION'', bold = True, font_size = Some 14 \<rparr>],
        alignment = None, style = None \<rparr>,
      \<lparr> runs = [\<lparr> run_text = ''BSc'', bold = True, font_size = None \<rparr>,
                 \<lparr> run_text = '' - MIT'', bold = False, font_size = None \<rparr>,
                 \<lparr> run_text = '' (2020)'', bold = False, font_size = None \<rparr>],
        alignment = None, style = None \<rparr>]"
    by (simp add: export_to_docx_conforming [OF c])
      (simp add: one_degree_def bsc_def no_personal_def docx_parts)
  from html_education_lines_shown(1) [OF c e]
  show "html_shows (export_to_html one_degree) ''<div class=\"job-title\">BSc in  - MIT</div>''"
    by (simp add: html_education_line_def bsc_def)
  from html_education_lines_shown(2) [OF c e]
  show "html_shows (export_to_html one_degree)
       ''<div class=\"date-range\">Graduated: 2020</div>''"
    by (simp add: html_graduated_line_def bsc_def)
qed

subsection \<open>Field values in the HTML output\<close>

lemma html_bullet_in_entry:
  assumes "bullet \<in> set (get (bullets exp) [])"
  shows \<open>sublist (''<div class="bullet">'' @ bullet_glyph @ '' '' @ bullet @ ''</div>'')
     (html_experience exp)\<close>
proof -
  obtain a b where \<open>concat (map (\<lambda>bullet. ''<div class="bullet">'' @ bullet_glyph @ '' '' @
         bullet @ ''</div>'') (get (bullets exp) []))
      = a @ (''<div class="bullet">'' @ bullet_glyph @ '' '' @ bullet @ ''</div>'') @ b\<close>
    using concat_map_member [OF assms,
        of \<open>\<lambda>bullet. ''<div class="bullet">'' @ bullet_glyph @ '' '' @ bullet @ ''</div>''\<close>]
    by blast
  then have \<open>sublist (''<div class="bullet">'' @ bullet_glyph @ '' '' @ bullet @ ''</div>'')
     (concat (map (\<lambda>bullet. ''<div class="bullet">'' @ bullet_glyph @ '' '' @
         bullet @ ''</div>'') (get (bullets exp) [])))\<close>
    by (simp only: sublist_appendI)
  then show ?thesis
    unfolding html_experience_def by (intro sublist_drop_left sublist_keep_left)
qed

lemma html_skill_line_in_skills:
  assumes "entry \<in> set (get (skills d) [])"
  shows "sublist (html_skill_line entry) (html_skills d)"
proof -
  from assms have ne: "get (skills d) [] \<noteq> []" by auto
  obtain a b where "concat (map html_skill_line (get (skills d) []))
      = a @ html_skill_line entry @ b"
    using concat_map_member [OF assms, of html_skill_line] by blast
  then have "sublist (html_skill_line entry) (concat (map html_skill_line (get (skills d) [])))"
    by (simp only: sublist_appendI)
  then have "sublist (html_skill_line entry)
     (''<div class=\"section\"><div class=\"section-title\">Skills</div>''
      @ concat (map html_skill_line (get (skills d) [])) @ ''</div>'')"
    by (rule sublist_middle)
  then show ?thesis
    using ne by (simp only: html_skills_def Let_def if_True simp_thms)
qed

text \<open>
  C4 as stated fails: for a document whose name is "<script>" the HTML output has the
  name line with "<script>" in it, as it is.
\<close>

theorem html_escapes_name_counterexample:
  "html_shows (export_to_html script_name) ''<div class=\"name\"><script></div>''"
proof -
  have c: "conforming script_name" by (simp add: conforming_def script_name_def)
  have "get (full_name (get_personal script_name)) [] = ''<script>''"
    by (simp add: get_personal_def script_name_def)
  with html_name_line_in_head [of "get_personal script_name"]
  have "sublist ''<div class=\"name\"><script></div>'' (html_head (get_personal script_name))"
    by simp
  with c show ?thesis by (rule html_head_shown)
qed

text \<open>
  C4, amended. \<^verbatim>\<open>export_to_html\<close> escapes nothing: the value of every field it reads
  is in the output as it is stored, between the markup of its place. That is so for the
  name, in the title and on the name line, for the email, the phone and the location on
  the contact line, for the LinkedIn and the website address, for the summary, for the
  job title, the company, the dates, the location and every bullet of every work
  experience entry, for the degree, the major, the school and the graduation date of
  every education entry, and for every skill category with its skills.
\<close>

theorem html_interpolates_fields_verbatim:
  assumes "conforming d"
  shows \<open>html_shows (export_to_html d)
           (''<title>Resume - '' @ get (full_name (get_personal d)) ''Resume'' @ ''</title>'')
       \<and> html_shows (export_to_html d)
           (''<div class="name">'' @ get (full_name (get_personal d)) [] @ ''</div>'')
       \<and> html_shows (export_to_html d)
           (''<div class="contact">'' @ get (email (get_personal d)) [] @ '' | '' @
            get (phone (get_personal d)) [] @ '' | '' @
            get (personal_info.location (get_personal d)) [] @ ''</div>'')
       \<and> (truthy (linkedin (get_personal d)) \<longrightarrow>
            html_shows (export_to_html d) (''LinkedIn: '' @ item (linkedin (get_personal d))))
       \<and> (truthy (website (get_personal d)) \<longrightarrow>
            html_shows (export_to_html d)
              ('' | Website: '' @ item (website (get_personal d)) @ ''</div>''))
       \<and> (truthy (summary d) \<longrightarrow>
            html_shows (export_to_html d) (''<p>'' @ item (summary d) @ ''</p>''))
       \<and> (\<forall>exp \<in> set (work_list d).
            html_shows (export_to_html d)
              (''<div><span class="job-title">'' @ get (job_title exp) [] @
               ''</span> - <span class="company">'' @ get (company exp) [] @ ''</span></div>'')
          \<and> html_shows (export_to_html d)
              (''<div class="date-range">'' @ get (start_date exp) [] @ '' to '' @
               get (end_date exp) ''Present'' @ '' | '' @ get (experience.location exp) [] @
               ''</div>'')
          \<and> (\<forall>bullet \<in> set (get (bullets exp) []).
               html_shows (export_to_html d)
                 (''<div class="bullet">'' @ bullet_glyph @ '' '' @ bullet @ ''</div>'')))
       \<and> (\<forall>edu \<in> set (get (education d) []).
            html_shows (export_to_html d)
              (''<div class="job-title">'' @ get (degree edu) [] @ '' in '' @
               get (major edu) [] @ '' - '' @ get (school edu) [] @ ''</div>'')
          \<and> html_shows (export_to_html d)
              (''<div class="date-range">Graduated: '' @ get (graduation_date edu) [] @
               ''</div>''))
       \<and> (\<forall>(category, skill_list) \<in> set (get (skills d) []). skill_list \<noteq> [] \<longrightarrow>
            html_shows (export_to_html d)
              (''<div class="skill-category"><strong>'' @ category @ '':</strong> '' @
               join '', '' skill_list @ ''</div>''))\<close>
proof (intro conjI impI ballI)
  show \<open>html_shows (export_to_html d)
           (''<title>Resume - '' @ get (full_name (get_personal d)) ''Resume'' @ ''</title>'')\<close>
    using assms html_title_in_head by (rule html_head_shown)
  show \<open>html_shows (export_to_html d)
           (''<div class="name">'' @ get (full_name (get_personal d)) [] @ ''</div>'')\<close>
    using assms html_name_line_in_head by (rule html_head_shown)
  show \<open>html_shows (export_to_html d)
           (''<div class="contact">'' @ get (email (get_personal d)) [] @ '' | '' @
            get (phone (get_personal d)) [] @ '' | '' @
            get (personal_info.location (get_personal d)) [] @ ''</div>'')\<close>
    using html_head_shown [OF assms html_contact_line_in_head]
    by (simp only: html_contact_line_def)
next
  assume t: "truthy (linkedin (get_personal d))"
  have "sublist (''LinkedIn: '' @ item (linkedin (get_personal d)))
      (html_links (get_personal d))"
  proof -
    have "sublist (''LinkedIn: '' @ item (linkedin (get_personal d)))
        ((''<div class='' @ [CHR 0x27] @ ''contact'' @ [CHR 0x27] @ ''>'')
         @ (''LinkedIn: '' @ item (linkedin (get_personal d)))
         @ ((if truthy (website (get_personal d))
             then '' | Website: '' @ item (website (get_personal d)) else []) @
            ''</div>'' @ ''</div>''))"
      by (rule sublist_appendI)
    then show ?thesis
      unfolding html_links_def using t by (simp only: if_True simp_thms append_assoc)
  qed
  then show "html_shows (export_to_html d) (''LinkedIn: '' @ item (linkedin (get_personal d)))"
    by (rule html_parts_shown(1) [OF assms])
next
  assume t: "truthy (website (get_personal d))"
  have "sublist ('' | Website: '' @ item (website (get_personal d)) @ ''</div>'')
      (html_links (get_personal d))"
  proof -
    have "sublist ('' | Website: '' @ item (website (get_personal d)) @ ''</div>'')
        ((''<div class='' @ [CHR 0x27] @ ''contact'' @ [CHR 0x27] @ ''>'' @
         (if truthy (linkedin (get_personal d))
          then ''LinkedIn: '' @ item (linkedin (get_personal d)) else []))
         @ ('' | Website: '' @ item (website (get_personal d)) @ ''</div>'') @ ''</div>'')"
      by (rule sublist_appendI)
    then show ?thesis
      unfolding html_links_def using t by (simp only: if_True simp_thms append_assoc)
  qed
  then show "html_shows (export_to_html d)
      ('' | Website: '' @ item (website (get_personal d)) @ ''</div>'')"
    by (rule html_parts_shown(1) [OF assms])
next
  assume t: "truthy (summary d)"
  have \<open>sublist (''<p>'' @ item (summary d) @ ''</p>'') (html_summary d)\<close>
  proof -
    have \<open>html_summary d =
        (''\<newline>'' @
         ''            <div class="section">\<newline>'' @
         ''                <div class="section-title">Professional Summary</div>\<newline>'' @
         ''                '') @ (''<p>'' @ item (summary d) @ ''</p>'') @
        (''\<newline>'' @
         ''            </div>\<newline>'' @
         ''            '')\<close>
      using t by (simp add: html_summary_def)
    then show ?thesis by (simp only: sublist_appendI)
  qed
  then show \<open>html_shows (export_to_html d) (''<p>'' @ item (summary d) @ ''</p>'')\<close>
    by (rule html_parts_shown(2) [OF assms])
next
  fix exp assume e: "exp \<in> set (work_list d)"
  from html_job_line_shown [OF assms e]
  show \<open>html_shows (export_to_html d)
              (''<div><span class="job-title">'' @ get (job_title exp) [] @
               ''</span> - <span class="company">'' @ get (company exp) [] @ ''</span></div>'')\<close>
    by (simp only: html_job_line_def)
  from html_date_line_shown [OF assms e]
  show \<open>html_shows (export_to_html d)
              (''<div class="date-range">'' @ get (start_date exp) [] @ '' to '' @
               get (end_date exp) ''Present'' @ '' | '' @ get (experience.location exp) [] @
               ''</div>'')\<close>
    by (simp only: html_date_line_def date_range_def append_assoc)
  fix bullet assume "bullet \<in> set (get (bullets exp) [])"
  then have \<open>sublist (''<div class="bullet">'' @ bullet_glyph @ '' '' @ bullet @ ''</div>'')
     (html_experience exp)\<close>
    by (rule html_bullet_in_entry)
  then show \<open>html_shows (export_to_html d)
                 (''<div class="bullet">'' @ bullet_glyph @ '' '' @ bullet @ ''</div>'')\<close>
    by (rule html_experience_in_html [OF assms e])
next
  fix edu assume e: "edu \<in> set (get (education d) [])"
  from html_education_lines_shown(1) [OF assms e]
  show \<open>html_shows (export_to_html d)
              (''<div class="job-title">'' @ get (degree edu) [] @ '' in '' @
               get (major edu) [] @ '' - '' @ get (school edu) [] @ ''</div>'')\<close>
    by (simp only: html_education_line_def)
  from html_education_lines_shown(2) [OF assms e]
  show \<open>html_shows (export_to_html d)
              (''<div class="date-range">Graduated: '' @ get (graduation_date edu) [] @
               ''</div>'')\<close>
    by (simp only: html_graduated_line_def)
next
  fix entry assume e: "entry \<in> set (get (skills d) [])"
  show \<open>case entry of (category, skill_list) \<Rightarrow> skill_list \<noteq> [] \<longrightarrow>
            html_shows (export_to_html d)
              (''<div class="skill-category"><strong>'' @ category @ '':</strong> '' @
               join '', '' skill_list @ ''</div>'')\<close>
  proof (cases entry)
    case (Pair category skill_list)
    have \<open>html_shows (export_to_html d)
              (''<div class="skill-category"><strong>'' @ category @ '':</strong> '' @
               join '', '' skill_list @ ''</div>'')\<close> if "skill_list \<noteq> []"
    proof -
      from that have \<open>html_skill_line entry = ''<div class="skill-category"><strong>'' @
          category @ '':</strong> '' @ join '', '' skill_list @ ''</div>''\<close>
        by (simp add: Pair html_skill_line_def)
      with html_skill_line_in_skills [OF e]
      have \<open>sublist (''<div class="skill-category"><strong>'' @
          category @ '':</strong> '' @ join '', '' skill_list @ ''</div>'') (html_skills d)\<close>
        by simp
      then show ?thesis by (rule html_parts_shown(3) [OF assms])
    qed
    then show ?thesis by (simp add: Pair)
  qed
qed

theorem html_interpolates_fields_verbatim_witness:
  \<open>html_shows (export_to_html markup_everywhere)
     ''<title>Resume - <script>alert(1)</script></title>''
   \<and> html_shows (export_to_html markup_everywhere)
     ''<div class="name"><script>alert(1)</script></div>''
   \<and> html_shows (export_to_html markup_everywhere)
     ''<div class="contact">a&b@x.com | <1> | "Q"</div>''
   \<and> html_shows (export_to_html markup_everywhere) ''LinkedIn: <in>''
   \<and> html_shows (export_to_html markup_everywhere) '' | Website: <a href=x></div>''
   \<and> html_shows (export_to_html markup_everywhere) ''<p></p><p></p>''
   \<and> html_shows (export_to_html markup_everywhere)
     ''<div><span class="job-title"><b>Dev</span> - <span class="company">A&B</span></div>''
   \<and> html_shows (export_to_html markup_everywhere)
     ''<div class="date-range"><2020> to &now | <NYC></div>''
   \<and> html_shows (export_to_html markup_everywhere)
     (''<div class="bullet">'' @ bullet_glyph @ '' x < y</div>'')
   \<and> html_shows (export_to_html markup_everywhere)
     ''<div class="job-title"><BSc> in C&S - <MIT></div>''
   \<and> html_shows (export_to_html markup_everywhere)
     ''<div class="date-range">Graduated: <2019></div>''
   \<and> html_shows (export_to_html markup_everywhere)
     ''<div class="skill-category"><strong><C>:</strong> a&b, <c></div>''\<close>
proof -
  have c: "conforming markup_everywhere"
    by (simp add: conforming_def markup_everywhere_def)
  show ?thesis
    using html_interpolates_fields_verbatim [OF c]
    by (simp add: markup_everywhere_def markup_job_def markup_degree_def get_personal_def
        work_list_def)
qed

subsection \<open>A work experience that is no list\<close>

lemma running_after_raise: "raised s = Some e \<Longrightarrow> running f s = s"
  by (simp add: running_def)

lemma raise_after_blocks:
  assumes "raised s = None"
  shows "raised (running (raise e) (add_blocks lib bs s))
      = Some (case first_refusal lib bs of None \<Rightarrow> e | Some m \<Rightarrow> ValueError m)"
  using add_blocks_result(1) [OF assms, of lib bs]
  by (cases "first_refusal lib bs") (simp_all add: running_def)

lemma pdf_run_falsy:
  assumes "work_experience d = Some (NotList v)" and "\<not> scalar_truthy v"
  shows "pdf_run lib d = running (write_out lib)
     (add_blocks lib (pdf_header (get_personal d) @ pdf_summary d
        @ pdf_education d @ pdf_skills d) (start d))"
proof -
  have "running (pdf_work_step lib) s = s" if "resume_data s = d" for s
    using that assms by (simp add: running_def pdf_work_step_def)
  then show ?thesis
    by (simp add: pdf_run_def Let_def running_add_blocks add_blocks_append)
qed

lemma docx_run_falsy:
  assumes "work_experience d = Some (NotList v)" and "\<not> scalar_truthy v"
  shows "docx_run lib d = running (write_out lib)
     (add_blocks lib (docx_header (get_personal d) @ docx_summary d
        @ docx_education d @ docx_skills d) (start d))"
proof -
  have "running (docx_work_step lib) s = s" if "resume_data s = d" for s
    using that assms by (simp add: running_def docx_work_step_def)
  then show ?thesis
    by (simp add: docx_run_def Let_def running_add_blocks add_blocks_append)
qed

lemma work_experience_update_parts [simp]:
  "get_personal (d\<lparr>work_experience := w\<rparr>) = get_personal d"
  "pdf_summary (d\<lparr>work_experience := w\<rparr>) = pdf_summary d"
  "docx_summary (d\<lparr>work_experience := w\<rparr>) = docx_summary d"
  "html_summary (d\<lparr>work_experience := w\<rparr>) = html_summary d"
  "pdf_education (d\<lparr>work_experience := w\<rparr>) = pdf_education d"
  "docx_education (d\<lparr>work_experience := w\<rparr>) = docx_education d"
  "html_education (d\<lparr>work_experience := w\<rparr>) = html_education d"
  "pdf_skills (d\<lparr>work_experience := w\<rparr>) = pdf_skills d"
  "docx_skills (d\<lparr>work_experience := w\<rparr>) = docx_skills d"
  "html_skills (d\<lparr>work_experience := w\<rparr>) = html_skills d"
  "conforming (d\<lparr>work_experience := None\<rparr>)"
  "work_list (d\<lparr>work_experience := None\<rparr>) = []"
  by (simp_all add: conforming_def get_personal_def pdf_summary_def docx_summary_def
      html_summary_def work_list_def pdf_education_def docx_education_def html_education_def
      pdf_skills_def docx_skills_def html_skills_def)

lemma export_falsy:
  assumes "work_experience d = Some (NotList v)" and "\<not> scalar_truthy v"
  shows "export_to_pdf reportlab d = export_to_pdf reportlab (d\<lparr>work_experience := None\<rparr>)"
    and "export_to_docx python_docx d
      = export_to_docx python_docx (d\<lparr>work_experience := None\<rparr>)"
    and "export_to_html d = export_to_html (d\<lparr>work_experience := None\<rparr>)"
proof -
  have c: "conforming (d\<lparr>work_experience := None\<rparr>)" by simp
  have "export_to_pdf reportlab d = pdf_outcome reportlab (pdf_header (get_personal d)
      @ pdf_summary d @ pdf_education d @ pdf_skills d)"
    unfolding export_to_pdf_def pdf_outcome_def Let_def pdf_run_falsy [OF assms]
    by (cases "refusal reportlab (pdf_header (get_personal d) @ pdf_summary d
          @ pdf_education d @ pdf_skills d)")
      (simp_all add: written_out)
  then show "export_to_pdf reportlab d
      = export_to_pdf reportlab (d\<lparr>work_experience := None\<rparr>)"
    by (simp add: export_to_pdf_conforming [OF c])
  have "export_to_docx python_docx d = docx_outcome python_docx (docx_header (get_personal d)
      @ docx_summary d @ docx_education d @ docx_skills d)"
    unfolding export_to_docx_def docx_outcome_def Let_def docx_run_falsy [OF assms]
    by (cases "refusal python_docx (docx_header (get_personal d) @ docx_summary d
          @ docx_education d @ docx_skills d)")
      (simp_all add: written_out)
  then show "export_to_docx python_docx d
      = export_to_docx python_docx (d\<lparr>work_experience := None\<rparr>)"
    by (simp add: export_to_docx_conforming [OF c])
  have "export_to_html d = Inr (html_head (get_personal d) @ html_links (get_personal d)
     @ html_summary d @ html_education d @ html_skills d @ ''</body></html>'')"
    using assms
    by (simp add: export_to_html_def html_run_def Let_def running_ok html_work_step_def)
  then show "export_to_html d = export_to_html (d\<lparr>work_experience := None\<rparr>)"
    by (simp add: export_to_html_conforming [OF c])
qed

lemma pdf_run_truthy:
  assumes "work_experience d = Some (NotList v)" and "scalar_truthy v"
  shows "pdf_run lib d = running (raise (iteration_error v))
     (add_blocks lib (pdf_header (get_personal d) @ pdf_summary d
        @ [Paragraph ''PROFESSIONAL EXPERIENCE'' heading_style]) (start d))"
proof -
  define s0 where "s0 = add_blocks lib (pdf_header (get_personal d) @ pdf_summary d) (start d)"
  define s1 where "s1 = running (raise (iteration_error v))
     (add_blocks lib [Paragraph ''PROFESSIONAL EXPERIENCE'' heading_style] s0)"
  have d: "resume_data s0 = d" by (simp add: s0_def)
  have step: "running (pdf_work_step lib) s0 = s1"
  proof (cases "raised s0")
    case None
    then show ?thesis using assms d by (simp add: running_def pdf_work_step_def s1_def)
  next
    case (Some e)
    then show ?thesis
      by (simp add: s1_def running_after_raise add_blocks_after_raise)
  qed
  have "\<exists>e. raised s1 = Some e"
    by (cases "raised (add_blocks lib [Paragraph ''PROFESSIONAL EXPERIENCE'' heading_style] s0)")
      (simp_all add: s1_def running_def)
  then obtain e where r: "raised s1 = Some e" by blast
  have "pdf_run lib d = s1"
    unfolding pdf_run_def Let_def
    by (simp only: running_add_blocks start_fields add_blocks_frame add_blocks_append [symmetric]
        s0_def [symmetric] step running_after_raise [OF r] add_blocks_after_raise [OF r])
  then show ?thesis by (simp add: s1_def s0_def add_blocks_append)
qed

lemma docx_run_truthy:
  assumes "work_experience d = Some (NotList v)" and "scalar_truthy v"
  shows "docx_run lib d = running (raise (iteration_error v))
     (add_blocks lib (docx_header (get_personal d) @ docx_summary d
        @ [add_section_heading ''PROFESSIONAL EXPERIENCE'']) (start d))"
proof -
  define s0 where "s0 = add_blocks lib (docx_header (get_personal d) @ docx_summary d) (start d)"
  define s1 where "s1 = running (raise (iteration_error v))
     (add_blocks lib [add_section_heading ''PROFESSIONAL EXPERIENCE''] s0)"
  have d: "resume_data s0 = d" by (simp add: s0_def)
  have step: "running (docx_work_step lib) s0 = s1"
  proof (cases "raised s0")
    case None
    then show ?thesis using assms d by (simp add: running_def docx_work_step_def s1_def)
  next
    case (Some e)
    then show ?thesis
      by (simp add: s1_def running_after_raise add_blocks_after_raise)
  qed
  have "\<exists>e. raised s1 = Some e"
    by (cases "raised (add_blocks lib [add_section_heading ''PROFESSIONAL EXPERIENCE''] s0)")
      (simp_all add: s1_def running_def)
  then obtain e where r: "raised s1 = Some e" by blast
  have "docx_run lib d = s1"
    unfolding docx_run_def Let_def
    by (simp only: running_add_blocks start_fields add_blocks_frame add_blocks_append [symmetric]
        s0_def [symmetric] step running_after_raise [OF r] add_blocks_after_raise [OF r])
  then show ?thesis by (simp add: s1_def s0_def add_blocks_append)
qed

lemma html_run_truthy:
  assumes "work_experience d = Some (NotList v)" and "scalar_truthy v"
  shows "raised (html_run d) = Some (iteration_error v)"
    and "out (html_run d) = html_head (get_personal d) @ html_links (get_personal d)
       @ html_summary d @ html_experience_title"
  using assms
  by (simp_all add: html_run_def Let_def running_def html_work_step_def)




end
